theory Spec2Isabelle
  imports Complex_Main
begin

section \<open>Conventions of the embedding\<close>

text \<open>
  The theory embeds \<^verbatim>\<open>src/py/substep_samplers.py\<close>.

  \<^item> A tensor (a sample, a denoised estimate, a sigma) is modelled by one real number:
    every tensor operation of the file acts elementwise or broadcasts a scalar, and
    the arithmetic is exact. Two places of the file depend on what floating point does,
    and both are written out: \<^verbatim>\<open>DPMPP2MSDEStep.step\<close> takes \<open>log 0\<close> when
    \<open>sigma_next\<close> is zero (its values there are given as IEEE arithmetic gives
    them, with \<open>env_nan\<close> for a NaN), and the interpolation of
    \<^verbatim>\<open>get_dyn_value\<close> has a second version with the rounding of each operation
    explicit (\<open>get_dyn_value_fl\<close>).
  \<^item> A Python exception is a value of \<open>error\<close>; a function that can raise returns
    \<open>error + 'a\<close> with \<open>Inl\<close> for the exception.
  \<^item> An object that a method mutates is passed in and returned.
  \<^item> The noise source is a collaborator with a state of its own (type \<open>'g\<close>): a draw
    takes the state and returns the noise with the next state.
\<close>

datatype error =
    ZeroDivisionError
  | IndexError
  | TypeError
  | OverflowError
  | ValueError string
  | RuntimeError string
  | KeyError string

section \<open>SamplerResult\<close>

text \<open>
  The fields of \<^verbatim>\<open>SamplerResult\<close>, prefixed \<open>r_\<close>. The back reference
  \<^verbatim>\<open>self.sampler\<close> is only read by the constructor, for the defaults, and is not
  stored here. \<^verbatim>\<open>noise_sampler\<close> is \<open>None\<close> when neither the call nor the sampler
  supplied one.
\<close>

record 'g SamplerResult =
  r_x :: real
  r_strength :: real
  r_s_noise :: real
  r_sigma :: real
  r_sigma_next :: real
  r_noise_sampler :: "(real \<Rightarrow> real \<Rightarrow> 'g \<Rightarrow> real \<times> 'g) option"
  r_final :: bool

text \<open>The property \<^verbatim>\<open>noise_scale\<close>.\<close>

definition noise_scale :: "'g SamplerResult \<Rightarrow> real" where
  "noise_scale r = r_strength r * r_s_noise r"

text \<open>
  \<^verbatim>\<open>get_noise(self, scaled=True)\<close>: one draw from the noise source at
  \<open>(sigma, sigma_next)\<close>, multiplied by the noise scale when \<open>scaled\<close>. Calling a
  noise sampler that is \<open>None\<close> raises \<open>TypeError\<close>.
\<close>

definition get_noise :: "'g SamplerResult \<Rightarrow> bool \<Rightarrow> 'g \<Rightarrow> error + (real \<times> 'g)" where
  "get_noise r scaled g =
     (case r_noise_sampler r of
        None \<Rightarrow> Inl TypeError
      | Some ns \<Rightarrow>
          (case ns (r_sigma r) (r_sigma_next r) g of
             (n, g') \<Rightarrow> Inr (n * (if scaled then noise_scale r else 1), g')))"

text \<open>
  \<^verbatim>\<open>noise_x(self, x=None, scale=1.0)\<close>. The result is the outcome (the returned
  sample, or the exception), the object after the call and the noise source after the
  call.
\<close>

definition noise_x ::
  "'g SamplerResult \<Rightarrow> real option \<Rightarrow> real \<Rightarrow> 'g \<Rightarrow> (error + real) \<times> 'g SamplerResult \<times> 'g" where
  "noise_x r xo scale g =
     (let xv = (case xo of None \<Rightarrow> r_x r | Some v \<Rightarrow> v);
          r1 = (case xo of None \<Rightarrow> r | Some v \<Rightarrow> r\<lparr>r_x := v\<rparr>)
      in if r_sigma_next r1 = 0 \<or> noise_scale r1 = 0 then (Inr xv, r1, g)
         else (case get_noise r1 True g of
                 Inl e \<Rightarrow> (Inl e, r1, g)
               | Inr (n, g') \<Rightarrow>
                   (let r2 = r1\<lparr>r_x := xv + n * scale\<rparr> in (Inr (r_x r2), r2, g'))))"

section \<open>Model results and the step context\<close>

text \<open>
  The classes of the model result and of the step context are not part of
  \<^verbatim>\<open>substep_samplers.py\<close>; the records hold the attributes that the file reads,
  prefixed \<open>mr_\<close> and \<open>ss_\<close>. The methods \<^verbatim>\<open>ss.model\<close> (arguments: sample,
  sigma, \<^verbatim>\<open>model_call_idx\<close>, \<^verbatim>\<open>tangents\<close>) and \<^verbatim>\<open>ss.get_ancestral_step\<close>
  (arguments: eta, and the optional \<^verbatim>\<open>sigma_next\<close> override) are function-valued
  fields. \<^verbatim>\<open>main_idx\<close> and \<^verbatim>\<open>main_sigmas\<close> are attributes a context may or may
  not have (the file reads them with \<^verbatim>\<open>getattr\<close> and a default).
\<close>

record model_result =
  mr_x :: real
  mr_sigma :: real
  mr_denoised :: real
  mr_denoised_uncond :: real
  mr_jdenoised :: real

record StepContext =
  ss_sigma :: real
  ss_sigma_next :: real
  ss_sigma_prev :: real
  ss_sigma_up :: real
  ss_denoised :: real
  ss_hcur :: model_result
  ss_hprev :: model_result
  ss_hist :: "model_result list"
  ss_idx :: int
  ss_sigmas :: "real list"
  ss_model :: "real \<Rightarrow> real \<Rightarrow> int \<Rightarrow> (real \<times> real) option \<Rightarrow> model_result"
  ss_get_ancestral_step :: "real \<Rightarrow> real option \<Rightarrow> real \<times> real"
  ss_disable_status :: bool
  ss_main_idx :: "int option"
  ss_main_sigmas :: "real list option"

text \<open>
  Modelled from the spec: the attribute \<^verbatim>\<open>ss.dt\<close> of the step context, whose class
  is not in the file; the spec's data model gives it as the derived step size,
  next sigma minus current sigma.
\<close>

definition ss_dt :: "StepContext \<Rightarrow> real" where
  "ss_dt ss = ss_sigma_next ss - ss_sigma ss"

text \<open>
  Indexing a Python sequence with an integer: an index from \<open>0\<close> up to the length
  reads from the front, one from \<open>-1\<close> down to minus the length reads from the back,
  and any other raises \<open>IndexError\<close>.
\<close>

definition py_index :: "'a list \<Rightarrow> int \<Rightarrow> error + 'a" where
  "py_index xs i =
     (if 0 \<le> i \<and> i < int (length xs) then Inr (xs ! nat i)
      else if i < 0 \<and> - int (length xs) \<le> i then Inr (xs ! nat (int (length xs) + i))
      else Inl IndexError)"

section \<open>SingleStepSampler\<close>

text \<open>
  The instance attributes that \<^verbatim>\<open>SingleStepSampler.__init__\<close> sets. A subclass is a
  record extension, and a method of a class is a function on the record scheme, so
  that it applies to every subclass. A class attribute that a method reads through
  \<^verbatim>\<open>self\<close> (\<^verbatim>\<open>max_history\<close>, \<^verbatim>\<open>default_history_limit\<close>, \<^verbatim>\<open>reversible\<close>) is a
  field that the constructor of the concrete class fills in.
\<close>

record 'g SingleStepSampler =
  noise_sampler :: "(real \<Rightarrow> real \<Rightarrow> 'g \<Rightarrow> real \<times> 'g) option"
  substeps :: int
  s_noise :: real
  eta :: real
  dyn_eta_start :: "real option"
  dyn_eta_end :: "real option"
  weight :: real
  cfgpp_scale :: real

text \<open>The keyword arguments of \<^verbatim>\<open>SingleStepSampler.__init__\<close>; \<open>None\<close>: not passed.\<close>

record 'g kwargs =
  kw_noise_sampler :: "(real \<Rightarrow> real \<Rightarrow> 'g \<Rightarrow> real \<times> 'g) option"
  kw_substeps :: "int option"
  kw_s_noise :: "real option"
  kw_eta :: "real option"
  kw_dyn_eta_start :: "real option"
  kw_dyn_eta_end :: "real option"
  kw_weight :: "real option"
  kw_cfgpp_scale :: "real option"

definition kw_default :: "'a \<Rightarrow> 'a option \<Rightarrow> 'a" where
  "kw_default d v = (case v of None \<Rightarrow> d | Some w \<Rightarrow> w)"

text \<open>
  \<^verbatim>\<open>SingleStepSampler.__init__\<close> with \<^verbatim>\<open>CFGPPStepMixin.init_cfgpp\<close>; the class
  attribute \<^verbatim>\<open>allow_cfgpp\<close> is the first argument.
\<close>

definition SingleStepSampler_init :: "bool \<Rightarrow> 'g kwargs \<Rightarrow> 'g SingleStepSampler" where
  "SingleStepSampler_init allow_cfgpp kw =
     \<lparr>noise_sampler = kw_noise_sampler kw,
      substeps = kw_default 1 (kw_substeps kw),
      s_noise = kw_default 1 (kw_s_noise kw),
      eta = kw_default 1 (kw_eta kw),
      dyn_eta_start = kw_dyn_eta_start kw,
      dyn_eta_end = kw_dyn_eta_end kw,
      weight = kw_default 1 (kw_weight kw),
      cfgpp_scale = (if \<not> allow_cfgpp then 0 else kw_default 0 (kw_cfgpp_scale kw))\<rparr>"

text \<open>
  The two \<^verbatim>\<open>getattr\<close> expressions of \<^verbatim>\<open>get_dyn_value\<close>: the outer index and
  sigma sequence when the context has them, else its own.
\<close>

definition main_idx :: "StepContext \<Rightarrow> int" where
  "main_idx ss = (case ss_main_idx ss of Some i \<Rightarrow> i | None \<Rightarrow> ss_idx ss)"

definition main_sigmas :: "StepContext \<Rightarrow> real list" where
  "main_sigmas ss = (case ss_main_sigmas ss of Some l \<Rightarrow> l | None \<Rightarrow> ss_sigmas ss)"

text \<open>
  \<^verbatim>\<open>get_dyn_value(self, ss, start, end)\<close>. The index and the length are Python
  integers, so the true division raises \<open>ZeroDivisionError\<close> when the length
  minus one is zero. The value is the exact value of the expression; what it is after
  the rounding of each operation is \<open>get_dyn_value_fl\<close> below.
\<close>

definition get_dyn_value :: "StepContext \<Rightarrow> real option \<Rightarrow> real option \<Rightarrow> error + real" where
  "get_dyn_value ss start end' =
     (case start of
        None \<Rightarrow> Inr 1
      | Some s \<Rightarrow>
          (case end' of
             None \<Rightarrow> Inr 1
           | Some e \<Rightarrow>
               if s = e then Inr s
               else if int (length (main_sigmas ss)) - 1 = 0 then Inl ZeroDivisionError
               else
                 (let step_pct =
                        real_of_int (main_idx ss) / real_of_int (int (length (main_sigmas ss)) - 1);
                      dd_diff = e - s
                  in Inr (s + dd_diff * step_pct))))"


text \<open>\<^verbatim>\<open>get_dyn_eta(self, ss)\<close>.\<close>

definition get_dyn_eta :: "('g, 'z) SingleStepSampler_scheme \<Rightarrow> StepContext \<Rightarrow> error + real" where
  "get_dyn_eta self ss =
     (case get_dyn_value ss (dyn_eta_start self) (dyn_eta_end self) of
        Inl e \<Rightarrow> Inl e
      | Inr v \<Rightarrow> Inr (eta self * v))"

section \<open>HistorySingleStepSampler\<close>

record 'g HistorySingleStepSampler = "'g SingleStepSampler" +
  default_history_limit :: int
  max_history :: int
  history_limit :: int

text \<open>
  \<^verbatim>\<open>HistorySingleStepSampler.__init__\<close>: the first two arguments are the class
  attributes of the concrete class, the third the keyword \<^verbatim>\<open>history_limit\<close>, the
  last the object as \<^verbatim>\<open>super().__init__\<close> leaves it.
\<close>

definition HistorySingleStepSampler_init ::
  "int \<Rightarrow> int \<Rightarrow> int option \<Rightarrow> 'g SingleStepSampler \<Rightarrow> 'g HistorySingleStepSampler" where
  "HistorySingleStepSampler_init dhl mh kw_history_limit base =
     SingleStepSampler.extend base
       (HistorySingleStepSampler.fields dhl mh
          (min mh (max 0 (case kw_history_limit of None \<Rightarrow> dhl | Some h \<Rightarrow> h))))"

text \<open>\<^verbatim>\<open>available_history(self, ss)\<close>.\<close>

definition available_history ::
  "('g, 'z) HistorySingleStepSampler_scheme \<Rightarrow> StepContext \<Rightarrow> int" where
  "available_history self ss =
     max 0 (min (ss_idx ss)
             (min (history_limit self)
               (min (max_history self) (int (length (ss_hist ss)) - 1))))"

section \<open>Collaborators outside the file\<close>

text \<open>
  Functions that \<^verbatim>\<open>substep_samplers.py\<close> imports and calls but does not define are
  parameters of the model, collected in one record:
  \<^item> \<open>env_mr_to_d\<close>: the method \<^verbatim>\<open>to_d(cfgpp_scale=..., **kwargs)\<close> of a model result;
    the arguments after the scale are the keywords \<^verbatim>\<open>x\<close>, \<^verbatim>\<open>sigma\<close>,
    \<^verbatim>\<open>denoised\<close>, \<^verbatim>\<open>denoised_uncond\<close> (\<open>None\<close>: not passed);
  \<^item> \<open>env_to_d\<close> and \<open>env_get_ancestral_step\<close>: \<^verbatim>\<open>to_d(x, sigma, denoised)\<close> and
    \<^verbatim>\<open>get_ancestral_step(sigma_from, sigma_to, eta)\<close> of
    \<^verbatim>\<open>comfy.k_diffusion.sampling\<close>;
  \<^item> \<open>env_extract_pred\<close> and \<open>env_find_first_unsorted\<close>: the helpers of the
    repository's \<^verbatim>\<open>utils\<close> module;
  \<^item> \<open>env_de_second_order\<close>: \<^verbatim>\<open>_de_second_order(h, c2, simple_phi_calc)\<close> of
    \<^verbatim>\<open>res_support\<close>;
  \<^item> \<open>env_get_deis_coeff_list\<close>: \<^verbatim>\<open>comfy.k_diffusion.deis.get_deis_coeff_list\<close>;
  \<^item> \<open>env_have_tde\<close>, \<open>env_have_tode\<close>: whether the two optional imports succeeded;
  \<^item> \<open>env_tode_methods\<close>: the keys of \<^verbatim>\<open>tode.interface.METHODS\<close>;
  \<^item> \<open>env_tde_odeint\<close>: \<^verbatim>\<open>tde.odeint\<close>, as a function of the initial state, the time
    grid, \<^verbatim>\<open>rtol\<close>, \<^verbatim>\<open>atol\<close> and the method name;
  \<^item> \<open>env_tode_solve\<close>: the torchode solver that the step assembles, as a function of
    the method name, \<^verbatim>\<open>atol\<close>, \<^verbatim>\<open>rtol\<close>, the three controller coefficients, the
    compile flag, the initial state, the start and end times and \<^verbatim>\<open>dt0\<close>.
  \<^item> \<open>env_nan\<close>: the value that stands for a tensor of NaN. Nothing is known of it:
    no property of a step is stated for a result that holds it.
  What the two solvers are handed as the derivative callback is described next.
\<close>

text \<open>
  An external ODE solver is handed a derivative callback. Whatever it computes, a run
  of it is a finite dialogue: it asks for the derivative at a time and a state, goes on
  with the answer, and in the end returns its solution or raises an error of its own.
  \<open>solver\<close> is the type of such dialogues.
\<close>

datatype solver =
    Return real
  | Fail error
  | Eval real real "real \<Rightarrow> solver"

record env =
  env_mr_to_d ::
    "model_result \<Rightarrow> real \<Rightarrow> real option \<Rightarrow> real option \<Rightarrow> real option \<Rightarrow> real option \<Rightarrow> real"
  env_to_d :: "real \<Rightarrow> real \<Rightarrow> real \<Rightarrow> real"
  env_get_ancestral_step :: "real \<Rightarrow> real \<Rightarrow> real \<Rightarrow> real \<times> real"
  env_extract_pred :: "real \<Rightarrow> real \<Rightarrow> real \<Rightarrow> real \<Rightarrow> real \<times> real"
  env_find_first_unsorted :: "real list \<Rightarrow> int option"
  env_de_second_order :: "real \<Rightarrow> real \<Rightarrow> bool \<Rightarrow> real \<times> real \<times> real"
  env_get_deis_coeff_list :: "real list \<Rightarrow> int \<Rightarrow> string \<Rightarrow> real list list"
  env_have_tde :: bool
  env_have_tode :: bool
  env_tode_methods :: "string list"
  env_tde_odeint :: "real \<Rightarrow> real list \<Rightarrow> real \<Rightarrow> real \<Rightarrow> string \<Rightarrow> solver"
  env_tode_solve ::
    "string \<Rightarrow> real \<Rightarrow> real \<Rightarrow> real \<times> real \<times> real \<Rightarrow> bool \<Rightarrow> real \<Rightarrow> real \<Rightarrow> real \<Rightarrow>
     real option \<Rightarrow> solver"
  env_nan :: real

section \<open>The step protocol\<close>

text \<open>
  \<^verbatim>\<open>step\<close> is a Python generator. A generator is modelled by what it does when it is
  run: it finishes (\<open>Done\<close>), raises (\<open>Raise\<close>), or yields a result and goes on with
  the value the driver sends back (\<open>Yield\<close>). A helper that is entered with
  \<^verbatim>\<open>yield from\<close> takes the rest of the caller as a continuation, applied to the
  helper's return value.
\<close>

datatype 'g gen =
    Done
  | Raise error
  | Yield "'g SamplerResult" "real \<Rightarrow> 'g gen"

text \<open>
  \<^verbatim>\<open>SamplerResult.__init__(ss, sampler, x, strength, *, sigma, sigma_next, s_noise,
  noise_sampler, final)\<close>; an optional argument is \<open>None\<close> when it is not passed.
\<close>

definition SamplerResult_init ::
  "StepContext \<Rightarrow> ('g, 'z) SingleStepSampler_scheme \<Rightarrow> real \<Rightarrow> real option \<Rightarrow> real option \<Rightarrow>
   real option \<Rightarrow> real option \<Rightarrow> (real \<Rightarrow> real \<Rightarrow> 'g \<Rightarrow> real \<times> 'g) option \<Rightarrow> bool \<Rightarrow>
   'g SamplerResult" where
  "SamplerResult_init ss sampler xv strength sig sig_next sn ns fin =
     \<lparr>r_x = xv,
      r_strength = (case strength of Some v \<Rightarrow> v | None \<Rightarrow> ss_sigma_up ss),
      r_s_noise = (case sn of Some v \<Rightarrow> v | None \<Rightarrow> s_noise sampler),
      r_sigma = (case sig of Some v \<Rightarrow> v | None \<Rightarrow> ss_sigma ss),
      r_sigma_next = (case sig_next of Some v \<Rightarrow> v | None \<Rightarrow> ss_sigma_next ss),
      r_noise_sampler = (case ns of Some f \<Rightarrow> Some f | None \<Rightarrow> noise_sampler sampler),
      r_final = fin\<rparr>"

text \<open>
  \<^verbatim>\<open>result(self, ss, x, noise_scale=None, **kwargs)\<close>; the keywords that the file
  passes are \<^verbatim>\<open>sigma\<close>, \<^verbatim>\<open>sigma_next\<close> and \<^verbatim>\<open>final\<close>.
\<close>

definition result ::
  "('g, 'z) SingleStepSampler_scheme \<Rightarrow> StepContext \<Rightarrow> real \<Rightarrow> real option \<Rightarrow> real option \<Rightarrow>
   real option \<Rightarrow> bool \<Rightarrow> (real \<Rightarrow> 'g gen) \<Rightarrow> 'g gen" where
  "result self ss xv nscale sig sig_next fin k =
     Yield (SamplerResult_init ss self xv nscale sig sig_next None None fin) k"

text \<open>\<^verbatim>\<open>denoised_result(self, ss)\<close>: the denoised estimate with strength zero.\<close>

definition denoised_result ::
  "('g, 'z) SingleStepSampler_scheme \<Rightarrow> StepContext \<Rightarrow> (real \<Rightarrow> 'g gen) \<Rightarrow> 'g gen" where
  "denoised_result self ss k =
     Yield (SamplerResult_init ss self (ss_denoised ss) (Some 0) None None None None True) k"

text \<open>\<^verbatim>\<open>CFGPPStepMixin.to_d(self, mr, **kwargs)\<close>.\<close>

definition self_to_d ::
  "env \<Rightarrow> ('g, 'z) SingleStepSampler_scheme \<Rightarrow> model_result \<Rightarrow> real option \<Rightarrow> real option \<Rightarrow>
   real option \<Rightarrow> real option \<Rightarrow> real" where
  "self_to_d env self mr xo so dno duo = env_mr_to_d env mr (cfgpp_scale self) xo so dno duo"

text \<open>\<^verbatim>\<open>euler_step(self, x, ss)\<close>.\<close>

definition euler_step ::
  "env \<Rightarrow> ('g, 'z) SingleStepSampler_scheme \<Rightarrow> real \<Rightarrow> StepContext \<Rightarrow> (real \<Rightarrow> 'g gen) \<Rightarrow> 'g gen" where
  "euler_step env self xv ss k =
     (case get_dyn_eta self ss of
        Inl e \<Rightarrow> Raise e
      | Inr eta' \<Rightarrow>
          (case ss_get_ancestral_step ss eta' None of
             (sigma_down, sigma_up) \<Rightarrow>
               (let d = self_to_d env self (ss_hcur ss) None None None None;
                    dt = sigma_down - ss_sigma ss
                in result self ss (xv + d * dt) (Some sigma_up) None None True k)))"

text \<open>\<^verbatim>\<open>ancestralize_result(self, ss, x)\<close>.\<close>

definition ancestralize_result ::
  "env \<Rightarrow> ('g, 'z) SingleStepSampler_scheme \<Rightarrow> StepContext \<Rightarrow> real \<Rightarrow> (real \<Rightarrow> 'g gen) \<Rightarrow> 'g gen" where
  "ancestralize_result env self ss xv k =
     (case get_dyn_eta self ss of
        Inl e \<Rightarrow> Raise e
      | Inr eta' \<Rightarrow>
          if ss_sigma_next ss = 0 \<or> eta' = 0
          then result self ss xv (Some 0) None None True k
          else
            (case ss_get_ancestral_step ss eta' None of
               (sd, su) \<Rightarrow>
                 (case env_extract_pred env (mr_x (ss_hcur ss)) xv (ss_sigma ss) (ss_sigma_next ss) of
                    (out_d, out_n) \<Rightarrow>
                      result self ss (out_d + out_n * sd) (Some su) None None True k)))"

text \<open>An error-returning computation inside a generator: an exception ends it.\<close>

definition try_gen :: "error + 'a \<Rightarrow> ('a \<Rightarrow> 'g gen) \<Rightarrow> 'g gen" where
  "try_gen v f = (case v of Inl e \<Rightarrow> Raise e | Inr a \<Rightarrow> f a)"

text \<open>The generator is exhausted after its last \<^verbatim>\<open>yield\<close>, whatever is sent.\<close>

definition finish :: "real \<Rightarrow> 'g gen" where
  "finish v = Done"

section \<open>Euler and the cycle samplers\<close>


definition EulerStep_step :: "env \<Rightarrow> 'g SingleStepSampler \<Rightarrow> real \<Rightarrow> StepContext \<Rightarrow> 'g gen" where
  "EulerStep_step env self xv ss = euler_step env self xv ss finish"

record 'g CycleSingleStepSampler = "'g SingleStepSampler" +
  cycle_pct :: real

definition CycleSingleStepSampler_init ::
  "real option \<Rightarrow> 'g SingleStepSampler \<Rightarrow> 'g CycleSingleStepSampler" where
  "CycleSingleStepSampler_init kw_cycle_pct base =
     SingleStepSampler.extend base (CycleSingleStepSampler.fields (kw_default (1 / 4) kw_cycle_pct))"

text \<open>\<^verbatim>\<open>get_cycle_scales(self, sigma_next)\<close>.\<close>

definition get_cycle_scales :: "'g CycleSingleStepSampler \<Rightarrow> real \<Rightarrow> real \<times> real" where
  "get_cycle_scales self sigma_next =
     (let keep_scale = sigma_next * (1 - cycle_pct self);
          add_scale = sqrt (sigma_next ^ 2 - keep_scale ^ 2) * (95 / 100 + 25 / 100 * cycle_pct self)
      in (keep_scale, add_scale))"

definition EulerCycleStep_new :: "'g kwargs \<Rightarrow> real option \<Rightarrow> 'g CycleSingleStepSampler" where
  "EulerCycleStep_new kw kw_cycle_pct =
     CycleSingleStepSampler_init kw_cycle_pct (SingleStepSampler_init True kw)"

definition EulerCycleStep_step ::
  "env \<Rightarrow> 'g CycleSingleStepSampler \<Rightarrow> real \<Rightarrow> StepContext \<Rightarrow> 'g gen" where
  "EulerCycleStep_step env self xv ss =
     (if ss_sigma_next ss = 0 then denoised_result self ss finish
      else
        (let d = self_to_d env self (ss_hcur ss) None None None None in
         case get_cycle_scales self (ss_sigma_next ss) of
           (keep_scale, add_scale) \<Rightarrow>
             result self ss (ss_denoised ss + d * keep_scale) (Some add_scale) None None True finish))"

section \<open>The DPM-Solver++ multistep samplers\<close>

text \<open>\<^verbatim>\<open>DPMPPStepMixin.sigma_fn\<close>, \<^verbatim>\<open>DPMPPStepMixin.t_fn\<close> and torch's \<^verbatim>\<open>expm1\<close>.\<close>

definition sigma_fn :: "real \<Rightarrow> real" where
  "sigma_fn t = exp (- t)"

definition t_fn :: "real \<Rightarrow> real" where
  "t_fn t = - ln t"

definition expm1 :: "real \<Rightarrow> real" where
  "expm1 v = exp v - 1"

definition DPMPP2MStep_new :: "'g kwargs \<Rightarrow> int option \<Rightarrow> 'g HistorySingleStepSampler" where
  "DPMPP2MStep_new kw kw_history_limit =
     HistorySingleStepSampler_init 1 1 kw_history_limit (SingleStepSampler_init False kw)"

definition DPMPP2MStep_step ::
  "env \<Rightarrow> 'g HistorySingleStepSampler \<Rightarrow> real \<Rightarrow> StepContext \<Rightarrow> 'g gen" where
  "DPMPP2MStep_step env self xv ss =
     (let s = ss_sigma ss; sn = ss_sigma_next ss in
      if sn = 0 then euler_step env self xv ss finish
      else
        (let t = t_fn s; t_next = t_fn sn;
             h = t_next - t;
             st = sigma_fn t; st_next = sigma_fn t_next;
             denoised_d =
               (if available_history self ss > 0
                then
                  (let h_last = t - t_fn (ss_sigma_prev ss);
                       r = h_last / h;
                       denoised = ss_denoised ss; old_denoised = mr_denoised (ss_hprev ss)
                   in (1 + 1 / (2 * r)) * denoised - (1 / (2 * r)) * old_denoised)
                else ss_denoised ss)
         in ancestralize_result env self ss
              ((st_next / st) * xv - expm1 (- h) * denoised_d) finish))"

record 'g DPMPP2MSDEStep = "'g HistorySingleStepSampler" +
  solver_type :: string

text \<open>
  \<^verbatim>\<open>DPMPP2MSDEStep.__init__(self, *, solver_type="midpoint", **kwargs)\<close>: the keyword
  is stored as it comes.
\<close>

definition DPMPP2MSDEStep_init ::
  "string option \<Rightarrow> 'g HistorySingleStepSampler \<Rightarrow> 'g DPMPP2MSDEStep" where
  "DPMPP2MSDEStep_init kw_solver_type base =
     HistorySingleStepSampler.extend base
       (DPMPP2MSDEStep.fields (kw_default ''midpoint'' kw_solver_type))"

definition DPMPP2MSDEStep_new ::
  "'g kwargs \<Rightarrow> int option \<Rightarrow> string option \<Rightarrow> error + 'g DPMPP2MSDEStep" where
  "DPMPP2MSDEStep_new kw kw_history_limit kw_solver_type =
     Inr (DPMPP2MSDEStep_init kw_solver_type
            (HistorySingleStepSampler_init 1 1 kw_history_limit (SingleStepSampler_init False kw)))"

text \<open>
  \<^verbatim>\<open>DPMPP2MSDEStep.step\<close> takes the two logarithms and computes the sample and
  the noise strength before it tests \<^verbatim>\<open>ss.sigma_next == 0\<close>. With \<open>sigma_next\<close>
  zero the floating-point evaluation goes through \<open>log 0 = -inf\<close>. For a positive
  \<open>sigma\<close>, \<open>s\<close> and \<open>h\<close> are \<open>+inf\<close>; for a positive dynamic eta so is
  \<open>eta_h\<close>, the first summand is \<open>0 * exp(-inf) * x = 0\<close>, the factor
  \<open>-expm1(-inf)\<close> is 1, and the sample is the denoised estimate with noise strength
  \<open>0 * sqrt 1 = 0\<close>. For a dynamic eta of zero \<open>eta_h\<close> is \<open>0 * inf\<close>, for a
  negative one the first summand is \<open>0 * exp(inf)\<close>, and for a \<open>sigma\<close> that is not
  positive \<open>h\<close> is \<open>inf - inf\<close> or the logarithm of a negative number: the sample
  and the noise strength are NaN. \<open>x1\<close> and \<open>noise_strength\<close> give these values
  at \<open>sigma_next = 0\<close> and the formula of the source elsewhere.
\<close>

definition DPMPP2MSDEStep_step ::
  "env \<Rightarrow> 'g DPMPP2MSDEStep \<Rightarrow> real \<Rightarrow> StepContext \<Rightarrow> 'g gen" where
  "DPMPP2MSDEStep_step env self xv ss =
     (let denoised = ss_denoised ss;
          t = - ln (ss_sigma ss); s = - ln (ss_sigma_next ss);
          h = s - t
      in try_gen (get_dyn_eta self ss) (\<lambda>dyn_eta.
           let eta_h = dyn_eta * h;
               x1 = (if ss_sigma_next ss = 0
                     then (if 0 < ss_sigma ss \<and> 0 < dyn_eta then denoised else env_nan env)
                     else ss_sigma_next ss / ss_sigma ss * exp (- eta_h) * xv
                            + (- expm1 (- h - eta_h)) * denoised);
               noise_strength =
                 (if ss_sigma_next ss = 0
                  then (if 0 < ss_sigma ss \<and> 0 < dyn_eta then 0 else env_nan env)
                  else ss_sigma_next ss * sqrt (- expm1 (- 2 * eta_h)))
           in if ss_sigma_next ss = 0 \<or> available_history self ss = 0
              then result self ss x1 (Some noise_strength) None None True finish
              else
                (let h_last = (- ln (ss_sigma ss)) - (- ln (ss_sigma_prev ss));
                     r = h_last / h;
                     old_denoised = mr_denoised (ss_hprev ss);
                     x2 =
                       (if solver_type self = ''heun''
                        then x1 + ((- expm1 (- h - eta_h)) / (- h - eta_h) + 1)
                                    * (1 / r) * (denoised - old_denoised)
                        else if solver_type self = ''midpoint''
                        then x1 + 1 / 2 * (- expm1 (- h - eta_h)) * (1 / r)
                                    * (denoised - old_denoised)
                        else x1)
                 in result self ss x2 (Some noise_strength) None None True finish)))"

definition DPMPP3MSDEStep_new :: "'g kwargs \<Rightarrow> int option \<Rightarrow> 'g HistorySingleStepSampler" where
  "DPMPP3MSDEStep_new kw kw_history_limit =
     HistorySingleStepSampler_init 2 2 kw_history_limit (SingleStepSampler_init False kw)"

definition DPMPP3MSDEStep_step ::
  "env \<Rightarrow> 'g HistorySingleStepSampler \<Rightarrow> real \<Rightarrow> StepContext \<Rightarrow> 'g gen" where
  "DPMPP3MSDEStep_step env self xv ss =
     (if ss_sigma_next ss = 0 then denoised_result self ss finish
      else
        (let denoised = ss_denoised ss;
             t = - ln (ss_sigma ss); s = - ln (ss_sigma_next ss);
             h = s - t
         in try_gen (get_dyn_eta self ss) (\<lambda>eta'.
              let h_eta = h * (eta' + 1);
                  x1 = exp (- h_eta) * xv + (- expm1 (- h_eta)) * denoised;
                  noise_strength = ss_sigma_next ss * sqrt (- expm1 (- 2 * h * eta'));
                  ah = available_history self ss
              in if ah = 0 then result self ss x1 (Some noise_strength) None None True finish
                 else
                   (let hist = ss_hist ss;
                        h_1 = (- ln (ss_sigma ss)) - (- ln (ss_sigma_prev ss))
                    in try_gen (py_index hist (- 2)) (\<lambda>hm2.
                         let denoised_1 = mr_denoised hm2 in
                         if ah = 1
                         then
                           (let r = h_1 / h;
                                d = (denoised - denoised_1) / r;
                                phi_2 = expm1 (- h_eta) / h_eta + 1;
                                x2 = x1 + phi_2 * d
                            in result self ss x2 (Some noise_strength) None None True finish)
                         else
                           try_gen (py_index (ss_sigmas ss) (ss_idx ss - 2)) (\<lambda>sigma_m2.
                             let h_2 = (- ln (ss_sigma_prev ss)) - (- ln sigma_m2) in
                             try_gen (py_index hist (- 3)) (\<lambda>hm3.
                               let denoised_2 = mr_denoised hm3;
                                   r0 = h_1 / h;
                                   r1 = h_2 / h;
                                   d1_0 = (denoised - denoised_1) / r0;
                                   d1_1 = (denoised_1 - denoised_2) / r1;
                                   d1 = d1_0 + (d1_0 - d1_1) * r0 / (r0 + r1);
                                   d2 = (d1_0 - d1_1) / (r0 + r1);
                                   phi_2 = expm1 (- h_eta) / h_eta + 1;
                                   phi_3 = phi_2 / h_eta - 1 / 2;
                                   x2 = x1 + phi_2 * d1 - phi_3 * d2
                               in result self ss x2 (Some noise_strength) None None True
                                    finish)))))))"

section \<open>Reversible, exponential and Runge-Kutta samplers\<close>

record 'g ReversibleSingleStepSampler = "'g HistorySingleStepSampler" +
  reversible_scale :: real
  reta :: real
  dyn_reta_start :: "real option"
  dyn_reta_end :: "real option"

text \<open>
  \<^verbatim>\<open>ReversibleSingleStepSampler.__init__\<close>: the keywords \<^verbatim>\<open>reversible_scale\<close>,
  \<^verbatim>\<open>reta\<close>, \<^verbatim>\<open>dyn_reta_start\<close>, \<^verbatim>\<open>dyn_reta_end\<close>.
\<close>

definition ReversibleSingleStepSampler_init ::
  "real option \<Rightarrow> real option \<Rightarrow> real option \<Rightarrow> real option \<Rightarrow> 'g HistorySingleStepSampler \<Rightarrow>
   'g ReversibleSingleStepSampler" where
  "ReversibleSingleStepSampler_init kw_reversible_scale kw_reta kw_dyn_reta_start kw_dyn_reta_end base =
     HistorySingleStepSampler.extend base
       (ReversibleSingleStepSampler.fields (kw_default 1 kw_reversible_scale) (kw_default 1 kw_reta)
          kw_dyn_reta_start kw_dyn_reta_end)"

text \<open>\<^verbatim>\<open>get_dyn_reta(self, ss)\<close>.\<close>

definition get_dyn_reta ::
  "('g, 'z) ReversibleSingleStepSampler_scheme \<Rightarrow> StepContext \<Rightarrow> error + real" where
  "get_dyn_reta self ss =
     (case get_dyn_value ss (dyn_reta_start self) (dyn_reta_end self) of
        Inl e \<Rightarrow> Inl e
      | Inr v \<Rightarrow> Inr (reta self * v))"

definition ReversibleHeunStep_new ::
  "'g kwargs \<Rightarrow> int option \<Rightarrow> real option \<Rightarrow> real option \<Rightarrow> real option \<Rightarrow> real option \<Rightarrow>
   'g ReversibleSingleStepSampler" where
  "ReversibleHeunStep_new kw kw_history_limit kw_rs kw_reta kw_drs kw_dre =
     ReversibleSingleStepSampler_init kw_rs kw_reta kw_drs kw_dre
       (HistorySingleStepSampler_init 0 0 kw_history_limit (SingleStepSampler_init True kw))"

definition ReversibleHeunStep_step ::
  "env \<Rightarrow> 'g ReversibleSingleStepSampler \<Rightarrow> real \<Rightarrow> StepContext \<Rightarrow> 'g gen" where
  "ReversibleHeunStep_step env self xv ss =
     (if ss_sigma_next ss = 0 then euler_step env self xv ss finish
      else
        try_gen (get_dyn_eta self ss) (\<lambda>eta'.
          case ss_get_ancestral_step ss eta' None of
            (sigma_down, sigma_up) \<Rightarrow>
              try_gen (get_dyn_reta self ss) (\<lambda>reta'.
                case ss_get_ancestral_step ss reta' None of
                  (sigma_down_reversible, sigma_up_reversible) \<Rightarrow>
                    (let dt = sigma_down - ss_sigma ss;
                         dt_reversible = sigma_down_reversible - ss_sigma ss;
                         d = self_to_d env self (ss_hcur ss) None None None None;
                         x_pred = xv + d * dt;
                         mr_next = ss_model ss x_pred sigma_down 1 None;
                         d_next = self_to_d env self mr_next None None None None;
                         correction = dt_reversible ^ 2 * (d_next - d) / 4;
                         x1 = xv + (dt * (d + d_next) / 2) - correction * reversible_scale self
                     in result self ss x1 (Some sigma_up) None None True finish))))"

definition ReversibleHeun1SStep_new ::
  "'g kwargs \<Rightarrow> int option \<Rightarrow> real option \<Rightarrow> real option \<Rightarrow> real option \<Rightarrow> real option \<Rightarrow>
   'g ReversibleSingleStepSampler" where
  "ReversibleHeun1SStep_new kw kw_history_limit kw_rs kw_reta kw_drs kw_dre =
     ReversibleSingleStepSampler_init kw_rs kw_reta kw_drs kw_dre
       (HistorySingleStepSampler_init 1 1 kw_history_limit (SingleStepSampler_init True kw))"

definition ReversibleHeun1SStep_step ::
  "env \<Rightarrow> 'g ReversibleSingleStepSampler \<Rightarrow> real \<Rightarrow> StepContext \<Rightarrow> 'g gen" where
  "ReversibleHeun1SStep_step env self xv ss =
     (if ss_sigma_next ss = 0 then euler_step env self xv ss finish
      else
        (let ah = available_history self ss;
             s = ss_sigma ss
         in try_gen (get_dyn_eta self ss) (\<lambda>eta'.
              case ss_get_ancestral_step ss eta' None of
                (sd, su) \<Rightarrow>
                  try_gen (get_dyn_reta self ss) (\<lambda>reta'.
                    case ss_get_ancestral_step ss reta' None of
                      (sdr, sur) \<Rightarrow>
                        (let dt = sd - s; dtr = sdr - s in
                         try_gen (if ah > 0 then (case py_index (ss_hist ss) (- 1) of
                                                    Inl e \<Rightarrow> Inl e | Inr h1 \<Rightarrow> Inr (mr_x h1))
                                  else Inr xv) (\<lambda>eff_x.
                           try_gen (if ah > 0 then py_index (ss_hist ss) (- 2)
                                    else Inr (ss_model ss eff_x s 1 None)) (\<lambda>mr_prev.
                             let d_prev = self_to_d env self mr_prev (Some eff_x) (Some s) None None;
                                 x_pred = eff_x + d_prev * dt;
                                 d_next = self_to_d env self (ss_hcur ss) (Some x_pred) (Some sd)
                                            None None;
                                 correction = dtr ^ 2 * (d_next - d_prev) / 4;
                                 x1 = xv + (dt * (d_prev + d_next) / 2)
                                        - correction * reversible_scale self
                             in result self ss x1 (Some su) None None True finish)))))))"

record 'g RESStep = "'g SingleStepSampler" +
  simple_phi :: bool
  c2 :: real

definition RESStep_new :: "'g kwargs \<Rightarrow> bool option \<Rightarrow> real option \<Rightarrow> 'g RESStep" where
  "RESStep_new kw kw_res_simple_phi kw_res_c2 =
     SingleStepSampler.extend (SingleStepSampler_init False kw)
       (RESStep.fields (kw_default False kw_res_simple_phi) (kw_default (1 / 2) kw_res_c2))"

definition RESStep_step :: "env \<Rightarrow> 'g RESStep \<Rightarrow> real \<Rightarrow> StepContext \<Rightarrow> 'g gen" where
  "RESStep_step env self xv ss =
     (if ss_sigma_next ss = 0 then euler_step env self xv ss finish
      else
        try_gen (get_dyn_eta self ss) (\<lambda>eta'.
          case ss_get_ancestral_step ss eta' None of
            (sigma_down, sigma_up) \<Rightarrow>
              (let denoised = ss_denoised ss;
                   lam_next = (if eta' \<noteq> 0 then - ln sigma_down else - ln (ss_sigma_next ss));
                   lam = - ln (ss_sigma ss);
                   h = lam_next - lam
               in case env_de_second_order env h (c2 self) (simple_phi self) of
                    (a2_1, b1, b2) \<Rightarrow>
                      (let c2_h = 1 / 2 * h;
                           x_2 = exp (- c2_h) * xv + a2_1 * h * denoised;
                           lam_2 = lam + c2_h;
                           sigma_2 = exp (- lam_2);
                           denoised2 = mr_denoised (ss_model ss x_2 sigma_2 1 None);
                           x1 = exp (- h) * xv + h * (b1 * denoised + b2 * denoised2)
                       in result self ss x1 (Some sigma_up) None None True finish))))"

definition TrapezoidalStep_new :: "'g kwargs \<Rightarrow> 'g SingleStepSampler" where
  "TrapezoidalStep_new kw = SingleStepSampler_init True kw"

definition TrapezoidalStep_step :: "env \<Rightarrow> 'g SingleStepSampler \<Rightarrow> real \<Rightarrow> StepContext \<Rightarrow> 'g gen" where
  "TrapezoidalStep_step env self xv ss =
     (if ss_sigma_next ss = 0 then euler_step env self xv ss finish
      else
        try_gen (get_dyn_eta self ss) (\<lambda>eta'.
          case ss_get_ancestral_step ss eta' None of
            (sigma_down, sigma_up) \<Rightarrow>
              (let d_i = self_to_d env self (ss_hcur ss) None None None None;
                   x_pred = xv + d_i * ss_dt ss;
                   mr_next = ss_model ss x_pred (ss_sigma_next ss) 1 None;
                   d_next = self_to_d env self mr_next None None None None;
                   dt_2 = sigma_down - ss_sigma ss;
                   x1 = xv + dt_2 * (d_i + d_next) / 2
               in result self ss x1 (Some sigma_up) None None True finish)))"

definition TrapezoidalCycleStep_new :: "'g kwargs \<Rightarrow> real option \<Rightarrow> 'g CycleSingleStepSampler" where
  "TrapezoidalCycleStep_new kw kw_cycle_pct =
     CycleSingleStepSampler_init kw_cycle_pct (SingleStepSampler_init True kw)"

definition TrapezoidalCycleStep_step ::
  "env \<Rightarrow> 'g CycleSingleStepSampler \<Rightarrow> real \<Rightarrow> StepContext \<Rightarrow> 'g gen" where
  "TrapezoidalCycleStep_step env self xv ss =
     (if ss_sigma_next ss = 0 then denoised_result self ss finish
      else
        (let d_i = self_to_d env self (ss_hcur ss) None None None None;
             x_pred = xv + d_i * ss_dt ss;
             mr_next = ss_model ss x_pred (ss_sigma_next ss) 1 None;
             d_next = self_to_d env self mr_next None None None None
         in case get_cycle_scales self (ss_sigma_next ss) of
              (keep_scale, add_scale) \<Rightarrow>
                (let noise_pred = (d_i + d_next) * (1 / 2);
                     denoised_pred = xv - noise_pred * ss_sigma ss
                 in result self ss (denoised_pred + noise_pred * keep_scale) (Some add_scale)
                      None None True finish)))"

record 'g BogackiStep = "'g ReversibleSingleStepSampler" +
  reversible :: bool

text \<open>
  \<^verbatim>\<open>BogackiStep.__init__\<close>; the first argument is the class attribute
  \<^verbatim>\<open>reversible\<close> (\<open>False\<close> for \<^verbatim>\<open>BogackiStep\<close>, \<open>True\<close> for
  \<^verbatim>\<open>ReversibleBogackiStep\<close>).
\<close>

definition BogackiStep_init ::
  "bool \<Rightarrow> 'g ReversibleSingleStepSampler \<Rightarrow> 'g BogackiStep" where
  "BogackiStep_init rv base =
     ReversibleSingleStepSampler.extend
       (if \<not> rv then base\<lparr>reversible_scale := 0\<rparr> else base)
       (BogackiStep.fields rv)"

definition BogackiStep_new ::
  "'g kwargs \<Rightarrow> int option \<Rightarrow> real option \<Rightarrow> real option \<Rightarrow> real option \<Rightarrow> real option \<Rightarrow>
   'g BogackiStep" where
  "BogackiStep_new kw kw_history_limit kw_rs kw_reta kw_drs kw_dre =
     BogackiStep_init False
       (ReversibleSingleStepSampler_init kw_rs kw_reta kw_drs kw_dre
          (HistorySingleStepSampler_init 0 0 kw_history_limit (SingleStepSampler_init True kw)))"

definition ReversibleBogackiStep_new ::
  "'g kwargs \<Rightarrow> int option \<Rightarrow> real option \<Rightarrow> real option \<Rightarrow> real option \<Rightarrow> real option \<Rightarrow>
   'g BogackiStep" where
  "ReversibleBogackiStep_new kw kw_history_limit kw_rs kw_reta kw_drs kw_dre =
     BogackiStep_init True
       (ReversibleSingleStepSampler_init kw_rs kw_reta kw_drs kw_dre
          (HistorySingleStepSampler_init 0 0 kw_history_limit (SingleStepSampler_init True kw)))"

definition BogackiStep_step :: "env \<Rightarrow> 'g BogackiStep \<Rightarrow> real \<Rightarrow> StepContext \<Rightarrow> 'g gen" where
  "BogackiStep_step env self xv ss =
     (if ss_sigma_next ss = 0 then euler_step env self xv ss finish
      else
        (let s = ss_sigma ss in
         try_gen (get_dyn_eta self ss) (\<lambda>eta'.
           case ss_get_ancestral_step ss eta' None of
             (sd, su) \<Rightarrow>
               try_gen (if reversible self then get_dyn_reta self ss else Inr 0) (\<lambda>reta'.
                 case ss_get_ancestral_step ss reta' None of
                   (sdr, sur) \<Rightarrow>
                     (let dt = sd - s; dtr = sdr - s;
                          d = self_to_d env self (ss_hcur ss) None None None None;
                          k1 = d * dt;
                          k2 = self_to_d env self (ss_model ss (xv + k1 / 2) (s + dt / 2) 1 None)
                                 None None None None * dt;
                          k3 = self_to_d env self
                                 (ss_model ss (xv + 3 * k1 / 4 + k2 / 4) (s + 3 * dt / 4) 2 None)
                                 None None None None * dt;
                          correction = dtr ^ 2 * (k3 - k2) / 6;
                          x1 = (xv + 2 * k1 / 9 + k2 / 3 + 4 * k3 / 9)
                                 - correction * reversible_scale self
                      in result self ss x1 (Some su) None None True finish)))))"

definition RK4Step_new :: "'g kwargs \<Rightarrow> 'g SingleStepSampler" where
  "RK4Step_new kw = SingleStepSampler_init True kw"

definition RK4Step_step :: "env \<Rightarrow> 'g SingleStepSampler \<Rightarrow> real \<Rightarrow> StepContext \<Rightarrow> 'g gen" where
  "RK4Step_step env self xv ss =
     (if ss_sigma_next ss = 0 then euler_step env self xv ss finish
      else
        try_gen (get_dyn_eta self ss) (\<lambda>eta'.
          case ss_get_ancestral_step ss eta' None of
            (sigma_down, sigma_up) \<Rightarrow>
              (let sigma = ss_sigma ss;
                   d = env_to_d env xv sigma (ss_denoised ss);
                   dt = sigma_down - sigma;
                   k1 = d * dt;
                   k2 = self_to_d env self (ss_model ss (xv + k1 / 2) (sigma + dt / 2) 1 None)
                          None None None None * dt;
                   k3 = self_to_d env self (ss_model ss (xv + k2 / 2) (sigma + dt / 2) 2 None)
                          None None None None * dt;
                   k4 = self_to_d env self (ss_model ss (xv + k3) (sigma + dt) 3 None)
                          None None None None * dt;
                   x1 = xv + (k1 + 2 * k2 + 2 * k3 + k4) / 6
               in result self ss x1 (Some sigma_up) None None True finish)))"

section \<open>Leaping, two-stage and tangent samplers\<close>

text \<open>
  Python slicing \<^verbatim>\<open>xs[lo:hi]\<close> with optional bounds: a negative bound counts from
  the end, and a bound beyond the sequence is clipped to it.
\<close>

definition py_clip :: "int \<Rightarrow> int \<Rightarrow> nat" where
  "py_clip n i = nat (if i < 0 then max 0 (n + i) else min n i)"

definition py_slice :: "'a list \<Rightarrow> int option \<Rightarrow> int option \<Rightarrow> 'a list" where
  "py_slice xs lo hi =
     (let n = int (length xs);
          a = (case lo of None \<Rightarrow> 0 | Some i \<Rightarrow> py_clip n i);
          b = (case hi of None \<Rightarrow> length xs | Some j \<Rightarrow> py_clip n j)
      in drop a (take b xs))"

text \<open>
  \<^verbatim>\<open>(leap_sigmas <= 0).nonzero().flatten()[:1]\<close>: the position of the first entry that
  is not positive, if there is one.
\<close>

fun first_le_zero :: "real list \<Rightarrow> nat option" where
  "first_le_zero [] = None"
| "first_le_zero (v # vs) = (if v \<le> 0 then Some 0 else map_option Suc (first_le_zero vs))"

record 'g EulerDancingStep = "'g SingleStepSampler" +
  deta :: real
  ds_noise :: real
  leap :: int
  dyn_deta_start :: "real option"
  dyn_deta_end :: "real option"
  dyn_deta_mode :: string

text \<open>
  \<^verbatim>\<open>EulerDancingStep.__init__\<close>: the keywords \<^verbatim>\<open>deta\<close>, \<^verbatim>\<open>ds_noise\<close>, \<^verbatim>\<open>leap\<close>,
  \<^verbatim>\<open>dyn_deta_start\<close>, \<^verbatim>\<open>dyn_deta_end\<close>, \<^verbatim>\<open>dyn_deta_mode\<close>; a mode outside the
  three known ones raises \<^verbatim>\<open>ValueError("Bad dyn_deta_mode")\<close>.
\<close>

definition EulerDancingStep_init ::
  "real option \<Rightarrow> real option \<Rightarrow> int option \<Rightarrow> real option \<Rightarrow> real option \<Rightarrow> string option \<Rightarrow>
   'g SingleStepSampler \<Rightarrow> error + 'g EulerDancingStep" where
  "EulerDancingStep_init kw_deta kw_ds_noise kw_leap kw_dyn_deta_start kw_dyn_deta_end
       kw_dyn_deta_mode base =
     (let mode = kw_default ''lerp'' kw_dyn_deta_mode in
      if mode \<notin> set [''lerp'', ''lerp_alt'', ''deta'']
      then Inl (ValueError ''Bad dyn_deta_mode'')
      else Inr (SingleStepSampler.extend base
                  (EulerDancingStep.fields (kw_default 1 kw_deta)
                     (case kw_ds_noise of Some v \<Rightarrow> v | None \<Rightarrow> s_noise base)
                     (kw_default 2 kw_leap) kw_dyn_deta_start kw_dyn_deta_end mode)))"

definition EulerDancingStep_new ::
  "'g kwargs \<Rightarrow> real option \<Rightarrow> real option \<Rightarrow> int option \<Rightarrow> real option \<Rightarrow> real option \<Rightarrow>
   string option \<Rightarrow> error + 'g EulerDancingStep" where
  "EulerDancingStep_new kw kw_deta kw_ds_noise kw_leap kw_dds kw_dde kw_mode =
     EulerDancingStep_init kw_deta kw_ds_noise kw_leap kw_dds kw_dde kw_mode
       (SingleStepSampler_init False kw)"

text \<open>\<^verbatim>\<open>EulerDancingStep.step\<close> (the two \<^verbatim>\<open>print\<close> calls are left out).\<close>

definition EulerDancingStep_step ::
  "env \<Rightarrow> 'g EulerDancingStep \<Rightarrow> real \<Rightarrow> StepContext \<Rightarrow> 'g gen" where
  "EulerDancingStep_step env self xv ss =
     (if ss_sigma_next ss = 0 then euler_step env self xv ss finish
      else
        (let eta' = eta self;
             deta' = deta self;
             leap_sigmas0 = py_slice (ss_sigmas ss) (Some (ss_idx ss)) None;
             leap_sigmas = py_slice leap_sigmas0 None (env_find_first_unsorted env leap_sigmas0);
             max_leap = (case first_le_zero leap_sigmas of
                           Some z \<Rightarrow> int z | None \<Rightarrow> int (length leap_sigmas)) - 1;
             is_danceable = (max_leap > 1 \<and> ss_sigma_next ss \<noteq> 0);
             curr_leap = max 1 (min (leap self) max_leap)
         in try_gen (if is_danceable then py_index leap_sigmas curr_leap
                     else Inr (ss_sigma_next ss)) (\<lambda>sigma_leap.
              case env_get_ancestral_step env (ss_sigma ss) sigma_leap eta' of
                (sigma_down, sigma_up) \<Rightarrow>
                  (let d = env_to_d env xv (ss_sigma ss) (ss_denoised ss);
                       dt = sigma_down - ss_sigma ss;
                       x1 = xv + d * dt
                   in if curr_leap = 1
                      then result self ss x1 (Some sigma_up) None None True finish
                      else
                        (let noise_strength = ds_noise self * sigma_up;
                             rest = (\<lambda>x2.
                               let sigma_up2 =
                                     snd (env_get_ancestral_step env (ss_sigma_next ss)
                                            sigma_leap deta')
                                       + ss_sigma_next ss * (1 / 2);
                                   sigma_down2 =
                                     fst (env_get_ancestral_step env (ss_sigma_next ss)
                                            sigma_leap deta');
                                   d_2 = env_to_d env x2 sigma_leap (ss_denoised ss);
                                   dt_2 = sigma_down2 - sigma_leap;
                                   x3 = x2 + d_2 * dt_2
                               in result self ss x3 (Some sigma_up2) None None True finish)
                         in if noise_strength \<noteq> 0
                            then result self ss x1 (Some sigma_up) None (Some sigma_leap) False rest
                            else rest x1)))))"

definition DPMPP2SStep_new :: "'g kwargs \<Rightarrow> 'g SingleStepSampler" where
  "DPMPP2SStep_new kw = SingleStepSampler_init False kw"

definition DPMPP2SStep_step :: "env \<Rightarrow> 'g SingleStepSampler \<Rightarrow> real \<Rightarrow> StepContext \<Rightarrow> 'g gen" where
  "DPMPP2SStep_step env self xv ss =
     (if ss_sigma_next ss = 0 then euler_step env self xv ss finish
      else
        try_gen (get_dyn_eta self ss) (\<lambda>eta'.
          case ss_get_ancestral_step ss eta' None of
            (sigma_down, sigma_up) \<Rightarrow>
              (let t = t_fn (ss_sigma ss); t_next = t_fn sigma_down;
                   r = 1 / 2;
                   h = t_next - t;
                   s = t + r * h;
                   x_2 = (sigma_fn s / sigma_fn t) * xv - expm1 (- h * r) * ss_denoised ss;
                   denoised_2 = mr_denoised (ss_model ss x_2 (sigma_fn s) 1 None);
                   x1 = (sigma_fn t_next / sigma_fn t) * xv - expm1 (- h) * denoised_2
               in result self ss x1 (Some sigma_up) None None True finish)))"

record 'g DPMPPSDEStep = "'g SingleStepSampler" +
  dpmpp_r :: real

text \<open>
  \<^verbatim>\<open>DPMPPSDEStep.__init__(self, *args, r=1 / 2, **kwargs)\<close>; the attribute
  \<^verbatim>\<open>self.r\<close> is the field \<open>dpmpp_r\<close>.
\<close>

definition DPMPPSDEStep_new :: "'g kwargs \<Rightarrow> real option \<Rightarrow> 'g DPMPPSDEStep" where
  "DPMPPSDEStep_new kw kw_r =
     SingleStepSampler.extend (SingleStepSampler_init False kw)
       (DPMPPSDEStep.fields (kw_default (1 / 2) kw_r))"

text \<open>
  \<^verbatim>\<open>DPMPPSDEStep.step\<close>. \<^verbatim>\<open>fac = 1 / (2 * r)\<close> divides Python floats, which raises
  at zero.
\<close>

definition DPMPPSDEStep_step :: "env \<Rightarrow> 'g DPMPPSDEStep \<Rightarrow> real \<Rightarrow> StepContext \<Rightarrow> 'g gen" where
  "DPMPPSDEStep_step env self xv ss =
     (if ss_sigma_next ss = 0 then euler_step env self xv ss finish
      else
        (let r = dpmpp_r self in
         try_gen (get_dyn_eta self ss) (\<lambda>eta'.
           let t = t_fn (ss_sigma ss); t_next = t_fn (ss_sigma_next ss);
               h = t_next - t;
               s = t + h * r
           in try_gen (if 2 * r = 0 then Inl ZeroDivisionError else Inr (1 / (2 * r))) (\<lambda>fac.
                case env_get_ancestral_step env (sigma_fn t) (sigma_fn s) eta' of
                  (sd, su) \<Rightarrow>
                    (let s' = t_fn sd;
                         x_2 = (sigma_fn s' / sigma_fn t) * xv - expm1 (t - s') * ss_denoised ss
                     in result self ss x_2 (Some su) (Some (sigma_fn t)) (Some (sigma_fn s)) False
                          (\<lambda>x_2'.
                             let denoised_2 = mr_denoised (ss_model ss x_2' (sigma_fn s) 1 None) in
                             case env_get_ancestral_step env (sigma_fn t) (sigma_fn t_next) eta' of
                               (sd2, su2) \<Rightarrow>
                                 (let t_next' = t_fn sd2;
                                      denoised_d = (1 - fac) * ss_denoised ss + fac * denoised_2;
                                      x1 = (sigma_fn t_next' / sigma_fn t) * xv
                                             - expm1 (t - t_next') * denoised_d
                                  in result self ss x1 (Some su2) None None True finish)))))))"

record 'g TTMJVPStep = "'g SingleStepSampler" +
  alternate_phi_2_calc :: bool

definition TTMJVPStep_new :: "'g kwargs \<Rightarrow> bool option \<Rightarrow> 'g TTMJVPStep" where
  "TTMJVPStep_new kw kw_alternate_phi_2_calc =
     SingleStepSampler.extend (SingleStepSampler_init False kw)
       (TTMJVPStep.fields (kw_default True kw_alternate_phi_2_calc))"

definition TTMJVPStep_step :: "env \<Rightarrow> 'g TTMJVPStep \<Rightarrow> real \<Rightarrow> StepContext \<Rightarrow> 'g gen" where
  "TTMJVPStep_step env self xv ss =
     (if ss_sigma_next ss = 0 then denoised_result self ss finish
      else
        try_gen (get_dyn_eta self ss) (\<lambda>eta'.
          let sigma = ss_sigma ss; sigma_next = ss_sigma_next ss;
              t = - ln sigma; s = - ln sigma_next;
              h = s - t;
              h_eta = h * (eta' + 1);
              eps = env_to_d env xv sigma (ss_denoised ss);
              denoised_prime =
                mr_jdenoised (ss_model ss xv sigma 1 (Some (eps * - sigma, - sigma)));
              phi_1 = - expm1 (- h_eta);
              phi_2 = (if alternate_phi_2_calc self then expm1 (- h) + h
                       else expm1 (- h_eta) + h_eta);
              x1 = exp (- h_eta) * xv + phi_1 * ss_denoised ss + phi_2 * denoised_prime;
              noise_scale' = (if eta' \<noteq> 0 then sigma_next * sqrt (- expm1 (- 2 * h * eta'))
                              else 0)
          in result self ss x1 (Some noise_scale') None None True finish))"

section \<open>The multistep samplers on stored derivatives\<close>

text \<open>
  \<^verbatim>\<open>tuple(self.to_d(ss.hist[-hidx]) for hidx in range(order, 1, -1))\<close>: the second
  function is the loop over the indices, the first gives it \<^verbatim>\<open>range(order, 1, -1)\<close>.
\<close>

fun hist_ds_loop ::
  "env \<Rightarrow> ('g, 'z) SingleStepSampler_scheme \<Rightarrow> model_result list \<Rightarrow> int list \<Rightarrow> error + real list" where
  "hist_ds_loop env self hist [] = Inr []"
| "hist_ds_loop env self hist (hidx # rest) =
     (case py_index hist (- hidx) of
        Inl e \<Rightarrow> Inl e
      | Inr m \<Rightarrow>
          (case hist_ds_loop env self hist rest of
             Inl e \<Rightarrow> Inl e
           | Inr ds \<Rightarrow> Inr (self_to_d env self m None None None None # ds)))"

definition hist_ds ::
  "env \<Rightarrow> ('g, 'z) SingleStepSampler_scheme \<Rightarrow> StepContext \<Rightarrow> int \<Rightarrow> error + real list" where
  "hist_ds env self ss order = hist_ds_loop env self (ss_hist ss) (rev [2..order])"

text \<open>
  \<^verbatim>\<open>IPNDM_MULTIPLIERS\<close>, each row as the step destructures it:
  \<^verbatim>\<open>(dm, *hms), div\<close>.
\<close>

definition IPNDM_MULTIPLIERS :: "(real \<times> real list \<times> real) list" where
  "IPNDM_MULTIPLIERS =
     [(1, [], 1),
      (3, [- 1], 2),
      (23, [- 16, 5], 12),
      (55, [- 59, 37, - 9], 24)]"

text \<open>\<^verbatim>\<open>for hidx, hm in enumerate(hms, start=1): noise += hm * hd[-hidx]\<close>.\<close>

fun ipndm_loop :: "real list \<Rightarrow> int \<Rightarrow> real list \<Rightarrow> real \<Rightarrow> error + real" where
  "ipndm_loop hds hidx [] noise = Inr noise"
| "ipndm_loop hds hidx (hm # hms) noise =
     (case py_index hds (- hidx) of
        Inl e \<Rightarrow> Inl e
      | Inr v \<Rightarrow> ipndm_loop hds (hidx + 1) hms (noise + hm * v))"


definition IPNDMStep_step ::
  "env \<Rightarrow> 'g HistorySingleStepSampler \<Rightarrow> real \<Rightarrow> StepContext \<Rightarrow> 'g gen" where
  "IPNDMStep_step env self xv ss =
     (if ss_sigma_next ss = 0 then euler_step env self xv ss finish
      else
        (let order = available_history self ss + 1 in
         try_gen (if order > 1 then hist_ds env self ss order else Inr []) (\<lambda>hds.
           try_gen (py_index IPNDM_MULTIPLIERS (order - 1)) (\<lambda>row.
             case row of
               (dm, hms, dv) \<Rightarrow>
                 (let noise0 = dm * self_to_d env self (ss_hcur ss) None None None None in
                  try_gen (ipndm_loop hds 1 hms noise0) (\<lambda>noise1.
                    let noise = noise1 / dv in
                    ancestralize_result env self ss (xv + ss_dt ss * noise) finish))))))"

text \<open>
  The difference of two slices of the sigma tensor. Slices of different lengths arise
  only for an index beyond the sequence; torch rejects them (or broadcasts a slice of
  length one), which is modelled as an error.
\<close>

definition tensor_sub :: "real list \<Rightarrow> real list \<Rightarrow> error + real list" where
  "tensor_sub xs ys =
     (if length xs = length ys then Inr (map2 (-) xs ys)
      else Inl (RuntimeError ''tensor sizes must match''))"

definition IPNDMVStep_new :: "'g kwargs \<Rightarrow> int option \<Rightarrow> 'g HistorySingleStepSampler" where
  "IPNDMVStep_new kw kw_history_limit =
     HistorySingleStepSampler_init 1 3 kw_history_limit (SingleStepSampler_init True kw)"

definition IPNDMVStep_step ::
  "env \<Rightarrow> 'g HistorySingleStepSampler \<Rightarrow> real \<Rightarrow> StepContext \<Rightarrow> 'g gen" where
  "IPNDMVStep_step env self xv ss =
     (if ss_sigma_next ss = 0 then euler_step env self xv ss finish
      else
        (let dt = ss_dt ss;
             d = self_to_d env self (ss_hcur ss) None None None None;
             order = available_history self ss + 1
         in try_gen (if order > 1 then hist_ds env self ss order else Inr []) (\<lambda>hds.
            try_gen (if order > 1
                     then tensor_sub
                            (py_slice (ss_sigmas ss) (Some (ss_idx ss - (order - 2)))
                               (Some (ss_idx ss + 1)))
                            (py_slice (ss_sigmas ss) (Some (ss_idx ss - (order - 1)))
                               (Some (ss_idx ss)))
                     else Inr []) (\<lambda>hns.
              if order = 1
              then ancestralize_result env self ss (xv + ss_dt ss * d) finish
              else if order = 2
              then
                try_gen (py_index hns (- 1)) (\<lambda>h1.
                try_gen (py_index hds (- 1)) (\<lambda>hd1.
                  let coeff1 = (2 + (dt / h1)) / 2;
                      coeff2 = - (dt / h1) / 2;
                      noise = coeff1 * d + coeff2 * hd1
                  in ancestralize_result env self ss (xv + ss_dt ss * noise) finish))
              else if order = 3
              then
                try_gen (py_index hns (- 1)) (\<lambda>h1.
                try_gen (py_index hns (- 2)) (\<lambda>h2.
                try_gen (py_index hds (- 1)) (\<lambda>hd1.
                try_gen (py_index hds (- 2)) (\<lambda>hd2.
                  let temp = (1 - dt / (3 * (dt + h1)) * (dt * (dt + h1)) / (h1 * (h1 + h2))) / 2;
                      coeff1 = (2 + (dt / h1)) / 2 + temp;
                      coeff2 = - (dt / h1) / 2 - (1 + h1 / h2) * temp;
                      coeff3 = temp * h1 / h2;
                      noise = coeff1 * d + coeff2 * hd1 + coeff3 * hd2
                  in ancestralize_result env self ss (xv + ss_dt ss * noise) finish))))
              else
                try_gen (py_index hns (- 1)) (\<lambda>h1.
                try_gen (py_index hns (- 2)) (\<lambda>h2.
                try_gen (py_index hns (- 3)) (\<lambda>h3.
                try_gen (py_index hds (- 1)) (\<lambda>hd1.
                try_gen (py_index hds (- 2)) (\<lambda>hd2.
                try_gen (py_index hds (- 3)) (\<lambda>hd3.
                  let temp1 = (1 - dt / (3 * (dt + h1)) * (dt * (dt + h1)) / (h1 * (h1 + h2))) / 2;
                      temp2 =
                        ((1 - dt / (3 * (dt + h1))) / 2
                           + (1 - dt / (2 * (dt + h1))) * dt / (6 * (dt + h1 + h2)))
                          * (dt * (dt + h1) * (dt + h1 + h2))
                          / (h1 * (h1 + h2) * (h1 + h2 + h3));
                      coeff1 = (2 + (dt / h1)) / 2 + temp1 + temp2;
                      coeff2 =
                        - (dt / h1) / 2
                          - (1 + h1 / h2) * temp1
                          - (1 + (h1 / h2) + (h1 * (h1 + h2) / (h2 * (h2 + h3)))) * temp2;
                      coeff3 =
                        temp1 * h1 / h2
                          + ((h1 / h2) + (h1 * (h1 + h2) / (h2 * (h2 + h3))) * (1 + h2 / h3))
                              * temp2;
                      coeff4 = - temp2 * (h1 * (h1 + h2) / (h2 * (h2 + h3))) * h1 / h2;
                      noise = coeff1 * d + coeff2 * hd1 + coeff3 * hd2 + coeff4 * hd3
                  in ancestralize_result env self ss (xv + ss_dt ss * noise) finish))))))))))"

section \<open>The schedule-fitted multistep sampler and its cache\<close>

record 'g DEISStep = "'g HistorySingleStepSampler" +
  deis_mode :: string
  deis_coeffs_key :: "(int \<times> int \<times> real \<times> real) option"
  deis_coeffs :: "real list list option"

text \<open>\<^verbatim>\<open>DEISStep.__init__(self, *args, deis_mode="tab", **kwargs)\<close>.\<close>

definition DEISStep_new :: "'g kwargs \<Rightarrow> int option \<Rightarrow> string option \<Rightarrow> 'g DEISStep" where
  "DEISStep_new kw kw_history_limit kw_deis_mode =
     HistorySingleStepSampler.extend
       (HistorySingleStepSampler_init 1 3 kw_history_limit (SingleStepSampler_init True kw))
       (DEISStep.fields (kw_default ''tab'' kw_deis_mode) None None)"

text \<open>The key that \<^verbatim>\<open>get_deis_coeffs\<close> builds; indexing an empty sequence raises.\<close>

definition deis_key :: "'g DEISStep \<Rightarrow> StepContext \<Rightarrow> error + (int \<times> int \<times> real \<times> real)" where
  "deis_key self ss =
     (case py_index (ss_sigmas ss) 0 of
        Inl e \<Rightarrow> Inl e
      | Inr s0 \<Rightarrow>
          (case py_index (ss_sigmas ss) (- 1) of
             Inl e \<Rightarrow> Inl e
           | Inr s1 \<Rightarrow> Inr (history_limit self, int (length (ss_sigmas ss)), s0, s1)))"

text \<open>
  \<^verbatim>\<open>get_deis_coeffs(self, ss)\<close>. The result is the outcome, the object after the call
  and the number of calls of \<^verbatim>\<open>get_deis_coeff_list\<close> that the call made.
\<close>

definition get_deis_coeffs ::
  "env \<Rightarrow> 'g DEISStep \<Rightarrow> StepContext \<Rightarrow> (error + real list list option) \<times> 'g DEISStep \<times> nat" where
  "get_deis_coeffs env self ss =
     (case deis_key self ss of
        Inl e \<Rightarrow> (Inl e, self, 0)
      | Inr key \<Rightarrow>
          if deis_coeffs_key self = Some key then (Inr (deis_coeffs self), self, 0)
          else
            (let self1 = self\<lparr>deis_coeffs_key := Some key\<rparr>;
                 self2 = self1\<lparr>deis_coeffs :=
                           Some (env_get_deis_coeff_list env (ss_sigmas ss)
                                   (history_limit self1 + 1) (deis_mode self1))\<rparr>
             in (Inr (deis_coeffs self2), self2, 1)))"

text \<open>
  Repeated calls on the same object, one per context: the outcomes in order, the
  object after the last call, and the total number of recomputations. A call that
  raises leaves the object as it is and the calls go on, as a driver that catches the
  error would see them.
\<close>

fun get_deis_coeffs_seq ::
  "env \<Rightarrow> 'g DEISStep \<Rightarrow> StepContext list \<Rightarrow>
   (error + real list list option) list \<times> 'g DEISStep \<times> nat" where
  "get_deis_coeffs_seq env self [] = ([], self, 0)"
| "get_deis_coeffs_seq env self (ss # rest) =
     (case get_deis_coeffs env self ss of
        (out, self1, n) \<Rightarrow>
          (case get_deis_coeffs_seq env self1 rest of
             (outs, self2, m) \<Rightarrow> (out # outs, self2, n + m)))"

text \<open>\<^verbatim>\<open>for i in range(1, order): noise += c[i] * hd[-i]\<close>.\<close>

fun deis_loop :: "real list \<Rightarrow> real list \<Rightarrow> int list \<Rightarrow> real \<Rightarrow> error + real" where
  "deis_loop c hds [] noise = Inr noise"
| "deis_loop c hds (i # rest) noise =
     (case py_index c i of
        Inl e \<Rightarrow> Inl e
      | Inr ci \<Rightarrow>
          (case py_index hds (- i) of
             Inl e \<Rightarrow> Inl e
           | Inr v \<Rightarrow> deis_loop c hds rest (noise + ci * v)))"

text \<open>
  \<^verbatim>\<open>DEISStep.step\<close>: the object as the step leaves it (the cache may have been
  filled), and the generator. Indexing a cache that is \<open>None\<close> raises \<open>TypeError\<close>.
\<close>

definition DEISStep_step ::
  "env \<Rightarrow> 'g DEISStep \<Rightarrow> real \<Rightarrow> StepContext \<Rightarrow> 'g DEISStep \<times> 'g gen" where
  "DEISStep_step env self xv ss =
     (if ss_sigma_next ss = 0 then (self, euler_step env self xv ss finish)
      else
        (let dt = ss_dt ss;
             d = self_to_d env self (ss_hcur ss) None None None None;
             order = available_history self ss + 1
         in if order < 2
            then (self, ancestralize_result env self ss (xv + dt * d) finish)
            else
              (case get_deis_coeffs env self ss of
                 (out, self1, n) \<Rightarrow>
                   (self1,
                    try_gen out (\<lambda>tab.
                    try_gen (case tab of None \<Rightarrow> Inl TypeError
                             | Some rows \<Rightarrow> py_index rows (ss_idx ss)) (\<lambda>c.
                    try_gen (hist_ds env self1 ss order) (\<lambda>hds.
                    try_gen (py_index c 0) (\<lambda>c0.
                    try_gen (deis_loop c hds [1..order - 1] (c0 * d)) (\<lambda>noise.
                      ancestralize_result env self1 ss (xv + noise) finish)))))))))"

section \<open>The adaptive-order predictor-corrector\<close>

record 'g HeunPP2Step = "'g SingleStepSampler" +
  max_order :: int

text \<open>\<^verbatim>\<open>HeunPP2Step.__init__\<close>; the class attribute \<^verbatim>\<open>model_calls\<close> is 2.\<close>

definition HeunPP2Step_new :: "'g kwargs \<Rightarrow> int option \<Rightarrow> 'g HeunPP2Step" where
  "HeunPP2Step_new kw kw_max_order =
     SingleStepSampler.extend (SingleStepSampler_init True kw)
       (HeunPP2Step.fields (max 1 (min (2 + 1) (kw_default 3 kw_max_order))))"

definition HeunPP2Step_step :: "env \<Rightarrow> 'g HeunPP2Step \<Rightarrow> real \<Rightarrow> StepContext \<Rightarrow> 'g gen" where
  "HeunPP2Step_step env self xv ss =
     (let steps_remain = max 0 (int (length (ss_sigmas ss)) - (ss_idx ss + 2));
          order = min (max_order self) (steps_remain + 1);
          sn = ss_sigma_next ss
      in if order = 1 \<or> sn = 0 then euler_step env self xv ss finish
         else
           (let d = self_to_d env self (ss_hcur ss) None None None None;
                dt = ss_dt ss;
                w = real_of_int order * ss_sigma ss;
                w2 = sn / w;
                x_2 = xv + d * dt;
                d_2 = self_to_d env self (ss_model ss x_2 sn 1 None) None None None None
            in if order = 2
               then
                 (let w1 = 1 - w2;
                      d_prime = d * w1 + d_2 * w2
                  in ancestralize_result env self ss (xv + d_prime * dt) finish)
               else
                 try_gen (py_index (ss_sigmas ss) (ss_idx ss + 2)) (\<lambda>snn.
                   let dt_2 = snn - sn;
                       x_3 = x_2 + d_2 * dt_2;
                       d_3 = self_to_d env self (ss_model ss x_3 snn 2 None) None None None None;
                       w3 = snn / w;
                       w1 = 1 - w2 - w3;
                       d_prime = w1 * d + w2 * d_2 + w3 * d_3
                   in ancestralize_result env self ss (xv + d_prime * dt) finish)))"

section \<open>The adapters to the adaptive solvers\<close>

text \<open>
  The attributes that \<^verbatim>\<open>TDEStep\<close> and \<^verbatim>\<open>TODEStep\<close> both set are the fields of one
  parent record. A sample stands for a batch of one element, so the loop of
  \<^verbatim>\<open>TDEStep.step\<close> over the batch runs once, with \<^verbatim>\<open>bidx = 0\<close>. The progress bar
  is left out, except for the one way it can fail: \<^verbatim>\<open>round\<close> of an infinite or
  undefined percentage, when the interval \<^verbatim>\<open>delta\<close> is zero.
\<close>

record 'g ODEStep = "'g SingleStepSampler" +
  ode_solver_name :: string
  ode_max_nfe :: int
  ode_rtol :: real
  ode_atol :: real
  ode_fixup_hack :: real
  ode_min_sigma :: real

record 'g TDEStep = "'g ODEStep" +
  ode_split :: int

record 'g TODEStep = "'g ODEStep" +
  ode_ctl_pcoeff :: real
  ode_ctl_icoeff :: real
  ode_ctl_dcoeff :: real
  ode_compile :: bool
  ode_initial_step :: real

text \<open>
  \<^verbatim>\<open>ode_min_sigma if ode_min_sigma is not None else 0.0\<close>: the keyword may be left
  out (\<open>None\<close>), passed as \<^verbatim>\<open>None\<close> (\<open>Some None\<close>) or passed as a number.
\<close>

definition min_sigma_kw :: "real option option \<Rightarrow> real" where
  "min_sigma_kw v =
     (case v of None \<Rightarrow> 292 / 10000 | Some None \<Rightarrow> 0 | Some (Some w) \<Rightarrow> w)"


text \<open>
  \<^verbatim>\<open>TODEStep.__init__\<close>; \<^verbatim>\<open>tode.interface.METHODS[ode_solver]\<close> raises
  \<open>KeyError\<close> for a name that is not a key.
\<close>

definition TODEStep_new ::
  "env \<Rightarrow> 'g kwargs \<Rightarrow> string option \<Rightarrow> int option \<Rightarrow> real option \<Rightarrow> real option \<Rightarrow> real option \<Rightarrow>
   real option \<Rightarrow> real option option \<Rightarrow> bool option \<Rightarrow> real option \<Rightarrow> real option \<Rightarrow> real option \<Rightarrow>
   error + 'g TODEStep" where
  "TODEStep_new env kw kw_ode_solver kw_ode_max_nfe kw_ode_rtol kw_ode_atol kw_ode_fixup_hack
       kw_ode_initial_step kw_ode_min_sigma kw_ode_compile kw_pcoeff kw_icoeff kw_dcoeff =
     (if \<not> env_have_tode env
      then Inl (RuntimeError
        ''TODE sampler requires torchode installed in venv. Example: pip install torchode'')
      else if kw_default ''dopri5'' kw_ode_solver \<notin> set (env_tode_methods env)
      then Inl (KeyError (kw_default ''dopri5'' kw_ode_solver))
      else Inr (ODEStep.extend
                  (SingleStepSampler.extend (SingleStepSampler_init True kw)
                     (ODEStep.fields (kw_default ''dopri5'' kw_ode_solver)
                        (kw_default 100 kw_ode_max_nfe)
                        (10 powr kw_default (- 15 / 10) kw_ode_rtol)
                        (10 powr kw_default (- 35 / 10) kw_ode_atol)
                        (kw_default (25 / 1000) kw_ode_fixup_hack)
                        (min_sigma_kw kw_ode_min_sigma)))
                  (TODEStep.fields (kw_default (3 / 10) kw_pcoeff)
                     (kw_default (9 / 10) kw_icoeff) (kw_default (2 / 10) kw_dcoeff)
                     (kw_default False kw_ode_compile)
                     (kw_default (1 / 4) kw_ode_initial_step))))"

text \<open>\<^verbatim>\<open>MinSigmaStepMixin.adjust_step(sigma, min_sigma, threshold=5e-04)\<close>.\<close>

definition adjust_step :: "real \<Rightarrow> real \<Rightarrow> real \<Rightarrow> real" where
  "adjust_step sigma min_sigma threshold =
     (if min_sigma - sigma > threshold then max sigma min_sigma else sigma)"

text \<open>
  \<^verbatim>\<open>MinSigmaStepMixin.adjusted_step(self, ss, sn, result, mcc, sigma_up)\<close>; the
  continuation takes the returned pair \<^verbatim>\<open>(sigma_up, result)\<close>.
\<close>

definition adjusted_step ::
  "env \<Rightarrow> ('g, 'z) SingleStepSampler_scheme \<Rightarrow> StepContext \<Rightarrow> real \<Rightarrow> real \<Rightarrow> int \<Rightarrow> real \<Rightarrow>
   (real \<times> real \<Rightarrow> 'g gen) \<Rightarrow> 'g gen" where
  "adjusted_step env self ss sn res mcc sigma_up k =
     (if sn = ss_sigma_next ss then k (sigma_up, res)
      else
        result self ss res (Some sigma_up) (Some (ss_sigma ss)) (Some sn) False (\<lambda>res1.
          let mr = ss_model ss res1 sn mcc None;
              dt = ss_sigma_next ss - sn;
              res2 = res1 + self_to_d env self mr None None None None * dt
          in k (sigma_up * 0, res2)))"

text \<open>
  The state that a derivative callback closes over: the counter \<^verbatim>\<open>mcc\<close>, and (for
  the proofs) the list of the calls of \<^verbatim>\<open>ss.model\<close> it has made, each with its
  sample, its sigma and its \<^verbatim>\<open>model_call_idx\<close>.
\<close>

type_synonym ode_state = "int \<times> (real \<times> real \<times> int) list"

text \<open>The failure of \<^verbatim>\<open>round(pct.item() * 999)\<close> when \<^verbatim>\<open>delta\<close> is zero.\<close>

definition pbar_update :: "real \<Rightarrow> real \<Rightarrow> real \<Rightarrow> error option" where
  "pbar_update s t delta =
     (if delta = 0 then (if s - t = 0 then Some (ValueError ''cannot convert float NaN to integer'')
                         else Some OverflowError)
      else None)"

text \<open>
  \<^verbatim>\<open>odefn(t, y)\<close> of \<^verbatim>\<open>TDEStep.step\<close>; \<open>xb\<close> is \<^verbatim>\<open>x[bidx]\<close> and \<open>delta\<close> the
  variable of that name. The result is the outcome and the state after the call.
\<close>

definition TDEStep_odefn ::
  "env \<Rightarrow> 'g TDEStep \<Rightarrow> real \<Rightarrow> StepContext \<Rightarrow> real \<Rightarrow> ode_state \<Rightarrow> real \<Rightarrow> real \<Rightarrow>
   (error + real) \<times> ode_state" where
  "TDEStep_odefn env self xb ss delta st t y =
     (case st of
        (mcc, calls) \<Rightarrow>
          if t < 1 / 100000 then (Inr 0, st)
          else if mcc \<ge> ode_max_nfe self
          then (Inl (RuntimeError ''TDEStep: Model call limit exceeded''), st)
          else
            (case pbar_update (ss_sigma ss) t delta of
               Some e \<Rightarrow> (Inl e, st)
             | None \<Rightarrow>
                 if t = ss_sigma ss \<and> xb = y
                 then
                   (let mr = ss_hcur ss in
                    (Inr (self_to_d env self mr (Some y) (Some t) (Some (mr_denoised mr))
                            (Some (mr_denoised_uncond mr))),
                     (1, calls)))
                 else
                   (let mr = ss_model ss y t mcc None in
                    (Inr (self_to_d env self mr (Some y) (Some t) (Some (mr_denoised mr))
                            (Some (mr_denoised_uncond mr))),
                     (mcc + 1, calls @ [(y, t, mcc)])))))"

text \<open>
  \<^verbatim>\<open>odefn(t, y_flat)\<close> of \<^verbatim>\<open>TODEStep.step\<close>. With a batch of one, \<^verbatim>\<open>torch.all\<close>
  of a comparison is the comparison, and the final loop that zeroes the rows at small
  times finds none (the first test has excluded them).
\<close>

definition TODEStep_odefn ::
  "env \<Rightarrow> 'g TODEStep \<Rightarrow> StepContext \<Rightarrow> real \<Rightarrow> ode_state \<Rightarrow> real \<Rightarrow> real \<Rightarrow>
   (error + real) \<times> ode_state" where
  "TODEStep_odefn env self ss delta st t y =
     (case st of
        (mcc, calls) \<Rightarrow>
          if t \<le> 1 / 100000 then (Inr 0, st)
          else if mcc \<ge> ode_max_nfe self
          then (Inl (RuntimeError ''TDEStep: Model call limit exceeded''), st)
          else
            (case pbar_update (ss_sigma ss) t delta of
               Some e \<Rightarrow> (Inl e, st)
             | None \<Rightarrow>
                 if mcc = 0 \<and> t = ss_sigma ss
                 then
                   (Inr (self_to_d env self (ss_hcur ss) None None None None), (1, calls))
                 else
                   (let t' = max t (1 / 100000);
                        mr = ss_model ss y t' mcc None
                    in (Inr (self_to_d env self mr None None None None),
                        (mcc + 1, calls @ [(y, t', mcc)])))))"

text \<open>
  A run of an external solver against a callback with state: the solver's requests
  are answered in order, and an exception of the callback ends the run, as it passes
  through the solver to the step.
\<close>

primrec run_solver ::
  "('s \<Rightarrow> real \<Rightarrow> real \<Rightarrow> (error + real) \<times> 's) \<Rightarrow> solver \<Rightarrow> 's \<Rightarrow> (error + real) \<times> 's" where
  "run_solver f (Return v) st = (Inr v, st)"
| "run_solver f (Fail e) st = (Inl e, st)"
| "run_solver f (Eval t y k) st =
     (case f st t y of
        (Inl e, st') \<Rightarrow> (Inl e, st')
      | (Inr dy, st') \<Rightarrow> run_solver f (k dy) st')"

text \<open>\<^verbatim>\<open>torch.linspace(start, end, steps)\<close>.\<close>

definition linspace :: "real \<Rightarrow> real \<Rightarrow> int \<Rightarrow> error + real list" where
  "linspace a b n =
     (if n < 0 then Inl (RuntimeError ''number of steps must be non-negative'')
      else if n = 1 then Inr [a]
      else Inr (map (\<lambda>i. a + (b - a) * real i / real_of_int (n - 1)) [0..<nat n]))"

definition TDEStep_step :: "env \<Rightarrow> 'g TDEStep \<Rightarrow> real \<Rightarrow> StepContext \<Rightarrow> 'g gen" where
  "TDEStep_step env self xv ss =
     try_gen (get_dyn_eta self ss) (\<lambda>eta'.
       let s = ss_sigma ss in
       if s \<le> ode_min_sigma self then euler_step env self xv ss finish
       else
         (let sn = adjust_step (ss_sigma_next ss) (ode_min_sigma self) (5 / 10000) in
          case ss_get_ancestral_step ss eta' (Some sn) of
            (sigma_down0, sigma_up) \<Rightarrow>
              (let sigma_down =
                     (if ode_fixup_hack self \<noteq> 0
                      then max 0 (sigma_down0 - (s - sigma_down0) * ode_fixup_hack self)
                      else sigma_down0);
                   delta = s - sigma_down
               in try_gen (linspace (ss_sigma ss) sigma_down (ode_split self + 1)) (\<lambda>t.
                    case run_solver (TDEStep_odefn env self xv ss delta)
                           (env_tde_odeint env xv t (ode_rtol self) (ode_atol self)
                              (ode_solver_name self))
                           (0, []) of
                      (Inl e, st) \<Rightarrow> Raise e
                    | (Inr solution, (mcc, calls)) \<Rightarrow>
                        adjusted_step env self ss sn solution mcc sigma_up (\<lambda>p.
                          case p of
                            (sigma_up', res) \<Rightarrow>
                              result self ss res (Some sigma_up') None None True finish)))))"

definition TODEStep_step :: "env \<Rightarrow> 'g TODEStep \<Rightarrow> real \<Rightarrow> StepContext \<Rightarrow> 'g gen" where
  "TODEStep_step env self xv ss =
     try_gen (get_dyn_eta self ss) (\<lambda>eta'.
       let s = ss_sigma ss in
       if s \<le> ode_min_sigma self then euler_step env self xv ss finish
       else
         (let sn = adjust_step (ss_sigma_next ss) (ode_min_sigma self) (5 / 10000) in
          case ss_get_ancestral_step ss eta' (Some sn) of
            (sigma_down0, sigma_up) \<Rightarrow>
              (let sigma_down =
                     (if ode_fixup_hack self \<noteq> 0
                      then max 0 (sigma_down0 - (s - sigma_down0) * ode_fixup_hack self)
                      else sigma_down0);
                   delta = ss_sigma ss - sigma_down;
                   dt0 = (if ode_initial_step self \<noteq> 0
                          then Some ((sigma_down - s) * ode_initial_step self) else None)
               in case run_solver (TODEStep_odefn env self ss delta)
                         (env_tode_solve env (ode_solver_name self) (ode_atol self)
                            (ode_rtol self)
                            (ode_ctl_pcoeff self, ode_ctl_icoeff self, ode_ctl_dcoeff self)
                            (ode_compile self) xv s sigma_down dt0)
                         (0, []) of
                    (Inl e, st) \<Rightarrow> Raise e
                  | (Inr solution, (mcc, calls)) \<Rightarrow>
                      adjusted_step env self ss sn solution mcc sigma_up (\<lambda>p.
                        case p of
                          (sigma_up', res) \<Rightarrow>
                            result self ss res (Some sigma_up') None None True finish))))"



section \<open>The registry\<close>

text \<open>
  \<^verbatim>\<open>STEP_SAMPLERS\<close> maps a name to a class; an object of any of the classes is a value
  of \<open>sampler\<close>, and \<open>step\<close> is the method call \<^verbatim>\<open>sampler.step(x, ss)\<close> on it.
  \<^verbatim>\<open>BogackiStep\<close> and \<^verbatim>\<open>ReversibleBogackiStep\<close> share their code and differ in the
  attribute \<^verbatim>\<open>reversible\<close>. For \<^verbatim>\<open>DEISStep\<close>, \<open>step\<close> gives the generator;
  \<open>DEISStep_step\<close> gives the object with its cache as well.
\<close>

datatype 'g sampler =
    Euler "'g SingleStepSampler"
  | EulerCycle "'g CycleSingleStepSampler"
  | DPMPP2M "'g HistorySingleStepSampler"
  | DPMPP2MSDE "'g DPMPP2MSDEStep"
  | DPMPP3MSDE "'g HistorySingleStepSampler"
  | ReversibleHeun "'g ReversibleSingleStepSampler"
  | ReversibleHeun1S "'g ReversibleSingleStepSampler"
  | RES "'g RESStep"
  | Trapezoidal "'g SingleStepSampler"
  | TrapezoidalCycle "'g CycleSingleStepSampler"
  | Bogacki "'g BogackiStep"
  | RK4 "'g SingleStepSampler"
  | EulerDancing "'g EulerDancingStep"
  | DPMPP2S "'g SingleStepSampler"
  | DPMPPSDE "'g DPMPPSDEStep"
  | TTMJVP "'g TTMJVPStep"
  | IPNDM "'g HistorySingleStepSampler"
  | IPNDMV "'g HistorySingleStepSampler"
  | DEIS "'g DEISStep"
  | HeunPP2 "'g HeunPP2Step"
  | TDE "'g TDEStep"
  | TODE "'g TODEStep"

fun step :: "env \<Rightarrow> 'g sampler \<Rightarrow> real \<Rightarrow> StepContext \<Rightarrow> 'g gen" where
  "step env (Euler s) xv ss = EulerStep_step env s xv ss"
| "step env (EulerCycle s) xv ss = EulerCycleStep_step env s xv ss"
| "step env (DPMPP2M s) xv ss = DPMPP2MStep_step env s xv ss"
| "step env (DPMPP2MSDE s) xv ss = DPMPP2MSDEStep_step env s xv ss"
| "step env (DPMPP3MSDE s) xv ss = DPMPP3MSDEStep_step env s xv ss"
| "step env (ReversibleHeun s) xv ss = ReversibleHeunStep_step env s xv ss"
| "step env (ReversibleHeun1S s) xv ss = ReversibleHeun1SStep_step env s xv ss"
| "step env (RES s) xv ss = RESStep_step env s xv ss"
| "step env (Trapezoidal s) xv ss = TrapezoidalStep_step env s xv ss"
| "step env (TrapezoidalCycle s) xv ss = TrapezoidalCycleStep_step env s xv ss"
| "step env (Bogacki s) xv ss = BogackiStep_step env s xv ss"
| "step env (RK4 s) xv ss = RK4Step_step env s xv ss"
| "step env (EulerDancing s) xv ss = EulerDancingStep_step env s xv ss"
| "step env (DPMPP2S s) xv ss = DPMPP2SStep_step env s xv ss"
| "step env (DPMPPSDE s) xv ss = DPMPPSDEStep_step env s xv ss"
| "step env (TTMJVP s) xv ss = TTMJVPStep_step env s xv ss"
| "step env (IPNDM s) xv ss = IPNDMStep_step env s xv ss"
| "step env (IPNDMV s) xv ss = IPNDMVStep_step env s xv ss"
| "step env (DEIS s) xv ss = snd (DEISStep_step env s xv ss)"
| "step env (HeunPP2 s) xv ss = HeunPP2Step_step env s xv ss"
| "step env (TDE s) xv ss = TDEStep_step env s xv ss"
| "step env (TODE s) xv ss = TODEStep_step env s xv ss"


section \<open>Example inputs\<close>

text \<open>
  A model result and a context over a given sigma sequence at a given index, used to
  evaluate the definitions at concrete inputs. The model's denoised estimate is half
  the sample. The ancestral split \<open>ex_split\<close> sends eta 0 to \<open>(sigma_to, 0)\<close> and any
  other eta to three fifths of the target down and four fifths up, so that
  \<open>down\<^sup>2 + up\<^sup>2 = sigma_to\<^sup>2\<close>. Beyond the end of the sigma sequence the context
  reads 0.
\<close>

definition ex_mr :: "real \<Rightarrow> real \<Rightarrow> model_result" where
  "ex_mr xv sg = \<lparr>mr_x = xv, mr_sigma = sg, mr_denoised = xv / 2,
                  mr_denoised_uncond = xv / 2, mr_jdenoised = 0\<rparr>"

definition ex_at :: "real list \<Rightarrow> nat \<Rightarrow> real" where
  "ex_at sigs i = (if i < length sigs then sigs ! i else 0)"

definition ex_split :: "real \<Rightarrow> real \<Rightarrow> real \<times> real" where
  "ex_split e sigma_to = (if e = 0 then (sigma_to, 0) else (3 / 5 * sigma_to, 4 / 5 * sigma_to))"

definition ex_ss :: "real list \<Rightarrow> nat \<Rightarrow> real \<Rightarrow> model_result list \<Rightarrow> StepContext" where
  "ex_ss sigs i xv hs =
     \<lparr>ss_sigma = ex_at sigs i, ss_sigma_next = ex_at sigs (i + 1),
      ss_sigma_prev = ex_at sigs (i - 1),
      ss_sigma_up = snd (ex_split 1 (ex_at sigs (i + 1))),
      ss_denoised = xv / 2, ss_hcur = ex_mr xv (ex_at sigs i),
      ss_hprev = ex_mr xv (ex_at sigs (i - 1)), ss_hist = hs, ss_idx = int i,
      ss_sigmas = sigs,
      ss_model = (\<lambda>y t k tg. ex_mr y t),
      ss_get_ancestral_step =
        (\<lambda>e sn. ex_split e (case sn of None \<Rightarrow> ex_at sigs (i + 1) | Some v \<Rightarrow> v)),
      ss_disable_status = True, ss_main_idx = None, ss_main_sigmas = None\<rparr>"

text \<open>
  Example collaborators: the derivative \<open>(x - denoised) / sigma\<close>; the split of
  \<open>ex_split\<close>; an \<^verbatim>\<open>extract_pred\<close> that returns the denoised and noise predictions
  on the line through the two points; a solver that takes one explicit midpoint step
  from the first to the last time (two requests to the callback).
\<close>

definition ex_midpoint :: "real \<Rightarrow> real \<Rightarrow> real \<Rightarrow> solver" where
  "ex_midpoint y0 t0 t1 =
     Eval t0 y0 (\<lambda>k1. Eval (t0 + (t1 - t0) / 2) (y0 + (t1 - t0) / 2 * k1)
       (\<lambda>k2. Return (y0 + (t1 - t0) * k2)))"

definition ex_env :: env where
  "ex_env =
     \<lparr>env_mr_to_d = (\<lambda>mr cfgpp xo so dno duo.
        (kw_default (mr_x mr) xo - kw_default (mr_denoised mr) dno) / kw_default (mr_sigma mr) so),
      env_to_d = (\<lambda>xv sg dn. (xv - dn) / sg),
      env_get_ancestral_step = (\<lambda>sigma_from sigma_to e. ex_split e sigma_to),
      env_extract_pred = (\<lambda>xb xa sb sa.
        if sa = 0 then (xa, 0)
        else (let alpha = sa / sb; dp = (xa - alpha * xb) / (1 - alpha) in (dp, (xb - dp) / sb))),
      env_find_first_unsorted = (\<lambda>xs. None),
      env_de_second_order = (\<lambda>h c simple. (c, 1 - 1 / (2 * c), 1 / (2 * c))),
      env_get_deis_coeff_list = (\<lambda>sigs order mode. map (\<lambda>sg. replicate (nat order) sg) sigs),
      env_have_tde = True,
      env_have_tode = True,
      env_tode_methods = [''dopri5'', ''tsit5'', ''heun''],
      env_tde_odeint = (\<lambda>y0 ts rtol atol method.
        case ts of [] \<Rightarrow> Fail (ValueError ''t must have at least two entries'')
        | t0 # rest \<Rightarrow> ex_midpoint y0 t0 (last ts)),
      env_tode_solve = (\<lambda>method atol rtol pid compile y0 t0 t1 dt0. ex_midpoint y0 t0 t1),
      env_nan = 0\<rparr>"

definition ex_kwargs :: "nat kwargs" where
  "ex_kwargs =
     \<lparr>kw_noise_sampler = Some (\<lambda>s sn g. (1, Suc g)), kw_substeps = None,
      kw_s_noise = None, kw_eta = None, kw_dyn_eta_start = None, kw_dyn_eta_end = None,
      kw_weight = None, kw_cfgpp_scale = None\<rparr>"



section \<open>Properties of SamplerResult\<close>

lemma noise_scale_update_x: "noise_scale (r\<lparr>r_x := v\<rparr>) = noise_scale r"
  by (simp add: noise_scale_def)

text \<open>
  Claim C4. The effective noise scale is the strength times the \<open>s_noise\<close> factor,
  and when the result's \<open>sigma_next\<close> is zero or that scale is zero, \<open>noise_x\<close>
  returns its input sample as it is (the stored one, or the supplied one) and leaves
  the noise source in the state it was in: no draw is made.
\<close>

theorem noise_x_noop:
  "noise_scale r = r_strength r * r_s_noise r \<and>
   (r_sigma_next r = 0 \<or> noise_scale r = 0 \<longrightarrow>
      noise_x r None scale g = (Inr (r_x r), r, g) \<and>
      noise_x r (Some v) scale g = (Inr v, r\<lparr>r_x := v\<rparr>, g))"
  by (auto simp add: noise_x_def noise_scale_def)

theorem noise_x_noop_witness:
  "r_sigma_next \<lparr>r_x = 2, r_strength = 3, r_s_noise = 1, r_sigma = 1, r_sigma_next = 0,
        r_noise_sampler = Some (\<lambda>s sn (g::nat). (5, Suc g)), r_final = True\<rparr> = 0 \<and>
   noise_x \<lparr>r_x = 2, r_strength = 3, r_s_noise = 1, r_sigma = 1, r_sigma_next = 0,
        r_noise_sampler = Some (\<lambda>s sn (g::nat). (5, Suc g)), r_final = True\<rparr> None 1 (0::nat)
     = (Inr 2, \<lparr>r_x = 2, r_strength = 3, r_s_noise = 1, r_sigma = 1, r_sigma_next = 0,
        r_noise_sampler = Some (\<lambda>s sn (g::nat). (5, Suc g)), r_final = True\<rparr>, 0)"
  using noise_x_noop [of "\<lparr>r_x = 2, r_strength = 3, r_s_noise = 1, r_sigma = 1, r_sigma_next = 0,
        r_noise_sampler = Some (\<lambda>s sn (g::nat). (5, Suc g)), r_final = True\<rparr>" 1 "0::nat" 0]
  by simp

text \<open>
  Claim C10. After any call of \<open>noise_x\<close> that returns, the stored sample is the
  returned value. A supplied sample replaces the stored one before anything else
  happens (the call is the call without argument on the object holding the supplied
  sample), and when noise is injected the stored sample becomes the noised sample.
\<close>

theorem noise_x_stores_returned:
  "(\<forall>w r' g'. noise_x r xo scale g = (Inr w, r', g') \<longrightarrow> r_x r' = w) \<and>
   noise_x r (Some v) scale g = noise_x (r\<lparr>r_x := v\<rparr>) None scale g \<and>
   (\<forall>ns n g'. r_sigma_next r \<noteq> 0 \<and> noise_scale r \<noteq> 0 \<and> r_noise_sampler r = Some ns \<and>
        ns (r_sigma r) (r_sigma_next r) g = (n, g') \<longrightarrow>
      noise_x r None scale g =
        (Inr (r_x r + n * noise_scale r * scale),
         r\<lparr>r_x := r_x r + n * noise_scale r * scale\<rparr>, g'))"
proof (intro conjI allI impI)
  fix w r' g'
  assume "noise_x r xo scale g = (Inr w, r', g')"
  then show "r_x r' = w"
    by (cases xo)
       (auto simp add: noise_x_def Let_def noise_scale_update_x
             split: if_splits sum.splits prod.splits)
next
  show "noise_x r (Some v) scale g = noise_x (r\<lparr>r_x := v\<rparr>) None scale g"
    by (simp add: noise_x_def)
next
  fix ns n g'
  assume "r_sigma_next r \<noteq> 0 \<and> noise_scale r \<noteq> 0 \<and> r_noise_sampler r = Some ns \<and>
          ns (r_sigma r) (r_sigma_next r) g = (n, g')"
  then show "noise_x r None scale g =
        (Inr (r_x r + n * noise_scale r * scale),
         r\<lparr>r_x := r_x r + n * noise_scale r * scale\<rparr>, g')"
    by (simp add: noise_x_def get_noise_def Let_def)
qed

theorem noise_x_stores_returned_witness:
  "noise_x \<lparr>r_x = 2, r_strength = 3, r_s_noise = 1, r_sigma = 4, r_sigma_next = 1,
        r_noise_sampler = Some (\<lambda>s sn (g::nat). (5, Suc g)), r_final = True\<rparr> None 1 (0::nat)
     = (Inr 17, \<lparr>r_x = 17, r_strength = 3, r_s_noise = 1, r_sigma = 4, r_sigma_next = 1,
        r_noise_sampler = Some (\<lambda>s sn (g::nat). (5, Suc g)), r_final = True\<rparr>, Suc 0)"
  using noise_x_stores_returned [of "\<lparr>r_x = 2, r_strength = 3, r_s_noise = 1, r_sigma = 4,
        r_sigma_next = 1, r_noise_sampler = Some (\<lambda>s sn (g::nat). (5, Suc g)),
        r_final = True\<rparr>" None 1 "0::nat" 7]
  by (simp add: noise_scale_def)

section \<open>Dynamic interpolation and available history\<close>









text \<open>
  Claim C3, as amended. On every sigma sequence whose length is not one (so on every
  schedule with a transition, which has at least two entries) \<open>get_dyn_value\<close> returns
  a value: the division is defined. On a sequence of exactly one entry the division by
  zero is raised exactly when both bounds are set and unequal.
\<close>

theorem get_dyn_value_division_defined:
  "(length (main_sigmas ss) \<noteq> 1 \<longrightarrow> (\<exists>v. get_dyn_value ss start end' = Inr v)) \<and>
   (length (main_sigmas ss) = 1 \<longrightarrow>
      (get_dyn_value ss start end' = Inl ZeroDivisionError) =
      (\<exists>a b. start = Some a \<and> end' = Some b \<and> a \<noteq> b))"
  by (auto simp add: get_dyn_value_def Let_def split: option.splits)

theorem get_dyn_value_division_defined_witness:
  "get_dyn_value (ex_ss [146 / 10, 0] 0 1 []) (Some 0) (Some 1) = Inr 0"
  using get_dyn_value_division_defined [of "ex_ss [146 / 10, 0] 0 1 []" "Some 0" "Some 1"]
  by (simp add: ex_ss_def main_sigmas_def main_idx_def get_dyn_value_def)

text \<open>
  Claim C3 as stated fails: on the one-entry schedule \<open>[14.6]\<close> with bounds
  \<open>0.5\<close> and \<open>1\<close> the division by \<open>len - 1 = 0\<close> raises.
\<close>

theorem get_dyn_value_single_sigma_zero_division:
  "get_dyn_value (ex_ss [146 / 10] 0 1 []) (Some (1 / 2)) (Some 1) = Inl ZeroDivisionError"
  by (simp add: ex_ss_def main_sigmas_def get_dyn_value_def)

text \<open>
  Claim C5, as amended. The available history is never negative and is the minimum of
  the current index, the history cap, the hard maximum and the number of stored entries
  minus one, clamped below at zero; it is that minimum itself whenever the index, the
  cap and the maximum are not negative and the history is not empty.
\<close>

theorem available_history_clamped:
  "0 \<le> available_history self ss \<and>
   available_history self ss =
     max 0 (min (ss_idx ss) (min (history_limit self)
       (min (max_history self) (int (length (ss_hist ss)) - 1)))) \<and>
   (0 \<le> ss_idx ss \<and> 0 \<le> history_limit self \<and> 0 \<le> max_history self \<and> ss_hist ss \<noteq> [] \<longrightarrow>
      available_history self ss =
        min (ss_idx ss) (min (history_limit self)
          (min (max_history self) (int (length (ss_hist ss)) - 1))))"
  by (cases "ss_hist ss") (auto simp add: available_history_def)

theorem available_history_clamped_witness:
  "available_history
     (HistorySingleStepSampler_init 1 3 (Some 2) (SingleStepSampler_init True ex_kwargs))
     (ex_ss [3, 2, 1, 0] 2 1 [ex_mr 1 3, ex_mr 1 2, ex_mr 1 1]) = 2"
  using available_history_clamped
    [of "HistorySingleStepSampler_init 1 3 (Some 2) (SingleStepSampler_init True ex_kwargs)"
        "ex_ss [3, 2, 1, 0] 2 1 [ex_mr 1 3, ex_mr 1 2, ex_mr 1 1]"]
  by (simp add: available_history_def HistorySingleStepSampler_init_def ex_ss_def
        SingleStepSampler.defs HistorySingleStepSampler.defs)

text \<open>
  Claim C5 as stated fails: with an empty history the minimum of the four is \<open>-1\<close>
  and the available history is 0.
\<close>

theorem available_history_empty_history:
  "available_history
     (HistorySingleStepSampler_init 1 3 None (SingleStepSampler_init True ex_kwargs))
     (ex_ss [1, 0] 0 1 []) = 0 \<and>
   min (ss_idx (ex_ss [1, 0] 0 1 []))
     (min (history_limit
            (HistorySingleStepSampler_init 1 3 None (SingleStepSampler_init True ex_kwargs)))
       (min (max_history
              (HistorySingleStepSampler_init 1 3 None (SingleStepSampler_init True ex_kwargs)))
          (int (length (ss_hist (ex_ss [1, 0] 0 1 []))) - 1))) = - 1"
  by (simp add: available_history_def HistorySingleStepSampler_init_def ex_ss_def
        SingleStepSampler.defs HistorySingleStepSampler.defs)

section \<open>The coefficient cache\<close>

lemma get_deis_coeffs_hit:
  "deis_key self ss = Inr key \<Longrightarrow> deis_coeffs_key self = Some key \<Longrightarrow>
   get_deis_coeffs env self ss = (Inr (deis_coeffs self), self, 0)"
  by (simp add: get_deis_coeffs_def)

lemma get_deis_coeffs_miss:
  "deis_key self ss = Inr key \<Longrightarrow> deis_coeffs_key self \<noteq> Some key \<Longrightarrow>
   get_deis_coeffs env self ss =
     (Inr (Some (env_get_deis_coeff_list env (ss_sigmas ss) (history_limit self + 1) (deis_mode self))),
      self\<lparr>deis_coeffs_key := Some key,
           deis_coeffs := Some (env_get_deis_coeff_list env (ss_sigmas ss) (history_limit self + 1)
                                  (deis_mode self))\<rparr>, 1)"
  by (simp add: get_deis_coeffs_def Let_def)

lemma get_deis_coeffs_seq_hits:
  "deis_coeffs_key self = Some key \<Longrightarrow> \<forall>ss \<in> set sss. deis_key self ss = Inr key \<Longrightarrow>
   get_deis_coeffs_seq env self sss = (map (\<lambda>ss. Inr (deis_coeffs self)) sss, self, 0)"
  by (induction sss) (simp_all add: get_deis_coeffs_hit)

lemma deis_key_nonempty:
  "ss_sigmas ss \<noteq> [] \<Longrightarrow>
   deis_key self ss =
     Inr (history_limit self, int (length (ss_sigmas ss)), hd (ss_sigmas ss), last (ss_sigmas ss))"
  by (cases "ss_sigmas ss")
     (simp_all add: deis_key_def py_index_def last_conv_nth nth_Cons split: nat.splits)

lemma deis_key_empty: "ss_sigmas ss = [] \<Longrightarrow> deis_key self ss = Inl IndexError"
  by (simp add: deis_key_def py_index_def)

text \<open>
  Claim C9. The key that \<open>get_deis_coeffs\<close> compares is the tuple of the history cap,
  the length of the sigma sequence, its first entry and its last entry (on an empty
  sequence the indexing raises and nothing changes). When that tuple is the memoized
  key, the call returns the cached table, leaves the object as it is and makes no call
  of \<open>get_deis_coeff_list\<close>. When it differs, the call makes one call of
  \<open>get_deis_coeff_list\<close> on the context's sigmas and stores both the new table and
  the new tuple. Over a sequence of calls whose contexts all have one length, first and
  last sigma, no call recomputes when that tuple is already memoized, and only the first
  one does when it is not; every call returns the same table.
\<close>

theorem get_deis_coeffs_memoized:
  "(ss_sigmas ss = [] \<longrightarrow> get_deis_coeffs env self ss = (Inl IndexError, self, 0)) \<and>
   (ss_sigmas ss \<noteq> [] \<and>
    deis_coeffs_key self =
      Some (history_limit self, int (length (ss_sigmas ss)), hd (ss_sigmas ss), last (ss_sigmas ss)) \<longrightarrow>
      get_deis_coeffs env self ss = (Inr (deis_coeffs self), self, 0)) \<and>
   (ss_sigmas ss \<noteq> [] \<and>
    deis_coeffs_key self \<noteq>
      Some (history_limit self, int (length (ss_sigmas ss)), hd (ss_sigmas ss), last (ss_sigmas ss)) \<longrightarrow>
      get_deis_coeffs env self ss =
        (Inr (Some (env_get_deis_coeff_list env (ss_sigmas ss) (history_limit self + 1)
                      (deis_mode self))),
         self\<lparr>deis_coeffs_key :=
                Some (history_limit self, int (length (ss_sigmas ss)), hd (ss_sigmas ss),
                      last (ss_sigmas ss)),
              deis_coeffs := Some (env_get_deis_coeff_list env (ss_sigmas ss)
                                     (history_limit self + 1) (deis_mode self))\<rparr>, 1)) \<and>
   (deis_coeffs_key self = Some (history_limit self, int n, a, b) \<and>
    (\<forall>c \<in> set sss. ss_sigmas c \<noteq> [] \<and> length (ss_sigmas c) = n \<and> hd (ss_sigmas c) = a \<and>
                    last (ss_sigmas c) = b) \<longrightarrow>
      get_deis_coeffs_seq env self sss = (map (\<lambda>c. Inr (deis_coeffs self)) sss, self, 0)) \<and>
   (ss_sigmas ss \<noteq> [] \<and>
    deis_coeffs_key self \<noteq>
      Some (history_limit self, int (length (ss_sigmas ss)), hd (ss_sigmas ss), last (ss_sigmas ss)) \<and>
    (\<forall>c \<in> set sss. ss_sigmas c \<noteq> [] \<and> length (ss_sigmas c) = length (ss_sigmas ss) \<and>
                    hd (ss_sigmas c) = hd (ss_sigmas ss) \<and>
                    last (ss_sigmas c) = last (ss_sigmas ss)) \<longrightarrow>
      get_deis_coeffs_seq env self (ss # sss) =
        (map (\<lambda>c. Inr (Some (env_get_deis_coeff_list env (ss_sigmas ss) (history_limit self + 1)
                               (deis_mode self)))) (ss # sss),
         self\<lparr>deis_coeffs_key :=
                Some (history_limit self, int (length (ss_sigmas ss)), hd (ss_sigmas ss),
                      last (ss_sigmas ss)),
              deis_coeffs := Some (env_get_deis_coeff_list env (ss_sigmas ss)
                                     (history_limit self + 1) (deis_mode self))\<rparr>, 1))"
proof (intro conjI impI)
  assume "ss_sigmas ss = []"
  then show "get_deis_coeffs env self ss = (Inl IndexError, self, 0)"
    by (simp add: get_deis_coeffs_def deis_key_empty)
next
  let ?key = "(history_limit self, int (length (ss_sigmas ss)), hd (ss_sigmas ss),
               last (ss_sigmas ss))"
  assume h: "ss_sigmas ss \<noteq> [] \<and> deis_coeffs_key self = Some ?key"
  then have "deis_key self ss = Inr ?key" by (simp add: deis_key_nonempty)
  with h show "get_deis_coeffs env self ss = (Inr (deis_coeffs self), self, 0)"
    by (simp add: get_deis_coeffs_hit)
next
  let ?key = "(history_limit self, int (length (ss_sigmas ss)), hd (ss_sigmas ss),
               last (ss_sigmas ss))"
  let ?T = "env_get_deis_coeff_list env (ss_sigmas ss) (history_limit self + 1) (deis_mode self)"
  assume h: "ss_sigmas ss \<noteq> [] \<and> deis_coeffs_key self \<noteq> Some ?key"
  then have "deis_key self ss = Inr ?key" by (simp add: deis_key_nonempty)
  with h show "get_deis_coeffs env self ss =
      (Inr (Some ?T), self\<lparr>deis_coeffs_key := Some ?key, deis_coeffs := Some ?T\<rparr>, 1)"
    by (simp add: get_deis_coeffs_miss)
next
  assume h: "deis_coeffs_key self = Some (history_limit self, int n, a, b) \<and>
    (\<forall>c \<in> set sss. ss_sigmas c \<noteq> [] \<and> length (ss_sigmas c) = n \<and> hd (ss_sigmas c) = a \<and>
                    last (ss_sigmas c) = b)"
  then have "\<forall>c \<in> set sss. deis_key self c = Inr (history_limit self, int n, a, b)"
    by (simp add: deis_key_nonempty)
  with h show "get_deis_coeffs_seq env self sss = (map (\<lambda>c. Inr (deis_coeffs self)) sss, self, 0)"
    by (simp add: get_deis_coeffs_seq_hits)
next
  let ?key = "(history_limit self, int (length (ss_sigmas ss)), hd (ss_sigmas ss),
               last (ss_sigmas ss))"
  let ?T = "env_get_deis_coeff_list env (ss_sigmas ss) (history_limit self + 1) (deis_mode self)"
  let ?self1 = "self\<lparr>deis_coeffs_key := Some ?key, deis_coeffs := Some ?T\<rparr>"
  assume h: "ss_sigmas ss \<noteq> [] \<and> deis_coeffs_key self \<noteq> Some ?key \<and>
    (\<forall>c \<in> set sss. ss_sigmas c \<noteq> [] \<and> length (ss_sigmas c) = length (ss_sigmas ss) \<and>
                    hd (ss_sigmas c) = hd (ss_sigmas ss) \<and>
                    last (ss_sigmas c) = last (ss_sigmas ss))"
  then have k: "deis_key self ss = Inr ?key" by (simp add: deis_key_nonempty)
  with h have first: "get_deis_coeffs env self ss = (Inr (Some ?T), ?self1, 1)"
    by (simp add: get_deis_coeffs_miss)
  from h have "\<forall>c \<in> set sss. deis_key ?self1 c = Inr ?key"
    by (simp add: deis_key_nonempty)
  then have "get_deis_coeffs_seq env ?self1 sss = (map (\<lambda>c. Inr (deis_coeffs ?self1)) sss, ?self1, 0)"
    by (intro get_deis_coeffs_seq_hits [where key = ?key]) simp_all
  with first show "get_deis_coeffs_seq env self (ss # sss) =
        (map (\<lambda>c. Inr (Some ?T)) (ss # sss), ?self1, 1)"
    by simp
qed


lemma ex_deis_new:
  "history_limit (DEISStep_new ex_kwargs None None) = 1 \<and>
   deis_mode (DEISStep_new ex_kwargs None None) = ''tab'' \<and>
   deis_coeffs_key (DEISStep_new ex_kwargs None None) = None"
  by (simp add: DEISStep_new_def HistorySingleStepSampler_init_def SingleStepSampler.defs
        HistorySingleStepSampler.defs DEISStep.defs kw_default_def)

lemma ex_deis_table:
  "env_get_deis_coeff_list ex_env [a, b, c, d] 2 m = [[a, a], [b, b], [c, c], [d, d]]"
  by (simp add: ex_env_def numeral_2_eq_2)

theorem get_deis_coeffs_memoized_witness:
  "(case get_deis_coeffs_seq ex_env (DEISStep_new ex_kwargs None None)
          [ex_ss [3, 2, 1, 0] 0 1 [], ex_ss [3, 2, 1, 0] 1 1 [], ex_ss [3, 2, 1, 1 / 2] 2 1 []] of
      (outs, S', n) \<Rightarrow>
        outs = [Inr (Some [[3, 3], [2, 2], [1, 1], [0, 0]]),
                Inr (Some [[3, 3], [2, 2], [1, 1], [0, 0]]),
                Inr (Some [[3, 3], [2, 2], [1, 1], [1 / 2, 1 / 2]])] \<and>
        deis_coeffs_key S' = Some (1, 4, 3, 1 / 2) \<and>
        deis_coeffs S' = Some [[3, 3], [2, 2], [1, 1], [1 / 2, 1 / 2]] \<and>
        n = 2)"
proof -
  let ?S = "DEISStep_new ex_kwargs None None :: nat DEISStep"
  let ?c1 = "ex_ss [3, 2, 1, 0] 0 1 []"
  let ?c2 = "ex_ss [3, 2, 1, 0] 1 1 []"
  let ?c3 = "ex_ss [3, 2, 1, 1 / 2] 2 1 []"
  let ?T1 = "[[3, 3], [2, 2], [1, 1], [0, 0::real]]"
  let ?T2 = "[[3, 3], [2, 2], [1, 1], [1 / 2, 1 / 2::real]]"
  let ?S1 = "?S\<lparr>deis_coeffs_key := Some (1, 4, 3, 0), deis_coeffs := Some ?T1\<rparr>"
  let ?S2 = "?S1\<lparr>deis_coeffs_key := Some (1, 4, 3, 1 / 2), deis_coeffs := Some ?T2\<rparr>"
  have sg: "ss_sigmas ?c1 = [3, 2, 1, 0]" "ss_sigmas ?c2 = [3, 2, 1, 0]"
      "ss_sigmas ?c3 = [3, 2, 1, 1 / 2]"
    by (simp_all add: ex_ss_def)
  have a: "get_deis_coeffs ex_env ?S ?c1 = (Inr (Some ?T1), ?S1, 1)"
    using get_deis_coeffs_memoized [where ss = ?c1 and env = ex_env and self = ?S and sss = "[]"
            and n = 0 and a = 0 and b = 0] sg
    by (simp add: ex_deis_new ex_deis_table)
  have b: "get_deis_coeffs ex_env ?S1 ?c2 = (Inr (Some ?T1), ?S1, 0)"
    using get_deis_coeffs_memoized [where ss = ?c2 and env = ex_env and self = ?S1 and sss = "[]"
            and n = 0 and a = 0 and b = 0] sg
    by (simp add: ex_deis_new)
  have c: "get_deis_coeffs ex_env ?S1 ?c3 = (Inr (Some ?T2), ?S2, 1)"
    using get_deis_coeffs_memoized [where ss = ?c3 and env = ex_env and self = ?S1 and sss = "[]"
            and n = 0 and a = 0 and b = 0] sg
    by (simp add: ex_deis_new ex_deis_table)
  show ?thesis using a b c by simp
qed

section \<open>The order-1 multistep formulations and Euler\<close>














section \<open>The boundary rule at the last sigma\<close>










lemma DPMPP2MSDE_zero_nan:
  "ss_sigma_next ss = 0 \<Longrightarrow> get_dyn_eta s ss = Inr e \<Longrightarrow> \<not> (0 < ss_sigma ss \<and> 0 < e) \<Longrightarrow>
   DPMPP2MSDEStep_step env s xv ss =
     result s ss (env_nan env) (Some (env_nan env)) None None True finish"
  by (auto simp add: DPMPP2MSDEStep_step_def try_gen_def Let_def)







section \<open>The evaluation budget of the adaptive adapters\<close>














section \<open>Validation of enumerated options\<close>

lemma ex_2msde_new:
  "DPMPP2MSDEStep_new ex_kwargs None (Some ''bogus'') =
     Inr \<lparr>noise_sampler = Some (\<lambda>s sn g. (1, Suc g)), substeps = 1, s_noise = 1, eta = 1,
          dyn_eta_start = None, dyn_eta_end = None, weight = 1, cfgpp_scale = 0,
          default_history_limit = 1, max_history = 1, history_limit = 1,
          solver_type = ''bogus''\<rparr>"
  by (simp add: DPMPP2MSDEStep_new_def DPMPP2MSDEStep_init_def HistorySingleStepSampler_init_def
        SingleStepSampler_init_def ex_kwargs_def kw_default_def SingleStepSampler.defs
        HistorySingleStepSampler.defs DPMPP2MSDEStep.defs)

text \<open>
  Claim C8 at a failing input. \<open>DPMPP2MSDEStep\<close> constructed with the solver type
  \<open>bogus\<close> is accepted: the constructor returns an object holding that string, and a
  step with one entry of history available then yields what it yields with no history
  at all (neither the \<open>heun\<close> nor the \<open>midpoint\<close> correction is applied), without an
  error. \<open>EulerDancingStep\<close>, given an unknown \<open>dyn_deta_mode\<close>, raises in its
  constructor.
\<close>

theorem DPMPP2MSDEStep_accepts_unknown_solver_type:
  "(case DPMPP2MSDEStep_new ex_kwargs None (Some ''bogus'') of
      Inl e \<Rightarrow> False
    | Inr S \<Rightarrow>
        solver_type S = ''bogus'' \<and>
        available_history S (ex_ss [3, 2, 1, 0] 1 1 [ex_mr 1 3, ex_mr 1 2]) = 1 \<and>
        step ex_env (DPMPP2MSDE S) 1 (ex_ss [3, 2, 1, 0] 1 1 [ex_mr 1 3, ex_mr 1 2]) =
          step ex_env (DPMPP2MSDE S) 1 (ex_ss [3, 2, 1, 0] 1 1 [])) \<and>
   EulerDancingStep_new ex_kwargs None None None None None (Some ''bogus'') =
     Inl (ValueError ''Bad dyn_deta_mode'')"
  apply (simp only: ex_2msde_new sum.case)
  by (simp add: available_history_def ex_ss_def DPMPP2MSDEStep_step_def Let_def try_gen_def
        get_dyn_eta_def get_dyn_value_def result_def SamplerResult_init_def
        EulerDancingStep_new_def EulerDancingStep_init_def kw_default_def)

end
